theory Spec2Isabelle
  imports Main
begin

section \<open>Values on the wire\<close>

text \<open>
  The consumers of \<^verbatim>\<open>llmstack/server/consumers.py\<close> exchange JSON text frames and
  binary frames with the client.  \<^verbatim>\<open>bytes\<close> are lists of 8-bit characters, an exception
  is identified with its \<^verbatim>\<open>str(e)\<close>, and a JSON document is the value \<^verbatim>\<open>json.loads\<close>
  returns for it (a \<^verbatim>\<open>dict\<close> is an association list read with \<^const>\<open>map_of\<close>).
\<close>

type_synonym bytes = string
type_synonym exn = string

datatype json =
    JNull
  | JBool bool
  | JInt int
  | JString string
  | JArray "json list"
  | JObject "(string \<times> json) list"

text \<open>\<^verbatim>\<open>d.get(key, default)\<close>: only a \<^verbatim>\<open>dict\<close> has the method, every other JSON value
  raises \<^verbatim>\<open>AttributeError\<close>.\<close>

fun json_get :: "json \<Rightarrow> string \<Rightarrow> json \<Rightarrow> exn + json" where
  "json_get (JObject kvs) k d = Inr (case map_of kvs k of None \<Rightarrow> d | Some v \<Rightarrow> v)"
| "json_get _ k d = Inl ''AttributeError: object has no attribute get''"

text \<open>Python truthiness of a JSON value (\<^verbatim>\<open>if x:\<close>, \<^verbatim>\<open>not x\<close>).\<close>

fun truthy :: "json \<Rightarrow> bool" where
  "truthy JNull = False"
| "truthy (JBool b) = b"
| "truthy (JInt i) = (i \<noteq> 0)"
| "truthy (JString s) = (s \<noteq> [])"
| "truthy (JArray xs) = (xs \<noteq> [])"
| "truthy (JObject kvs) = (kvs \<noteq> [])"

text \<open>
  Modelled from the spec: \<^verbatim>\<open>AppRunnerStreamingResponseType\<close> and the response objects of
  \<^verbatim>\<open>llmstack.apps.runner.app_runner\<close> are imported, not defined, by the consumers.  The
  spec's response taxonomy has four tagged variants; \<open>OTHER\<close> stands for any member of the
  enumeration the consumers do not compare against.  \<open>ERRORS\<close> carries the
  \<^verbatim>\<open>message\<close> of each element of \<^verbatim>\<open>response.data.errors\<close>.
\<close>

datatype response =
    OUTPUT_STREAM_CHUNK "(string \<times> json) list"
  | OUTPUT json
  | ERRORS "string list"
  | OUTPUT_STREAM_END
  | OTHER string

text \<open>\<^verbatim>\<open>AppRunnerRequest(client_request_id=..., session_id=..., input=...)\<close>.\<close>

record app_runner_request =
  client_request_id :: json
  request_session_id :: string
  input :: json

text \<open>
  What a handler observes each time it awaits the next item of the engine's response
  sequence (\<^verbatim>\<open>async for response in response_iterator\<close>): the engine yields a response
  or raises, or, the handler being suspended, the framework runs the consumer's
  \<^verbatim>\<open>disconnect(close_code)\<close>.  The end of the list is the end of the engine's
  sequence.
\<close>

datatype step =
    Engine_yields response
  | Engine_raises exn
  | Client_disconnects nat

text \<open>The payload of \<^verbatim>\<open>send(text_data=...)\<close> is either \<^verbatim>\<open>response.model_dump_json()\<close>,
  the engine's response serialized as it is, or \<^verbatim>\<open>json.dumps(value)\<close>.\<close>

datatype text_data =
    Model_dump_json response
  | Json_dumps json

text \<open>What a consumer does to its connection: \<^verbatim>\<open>send(text_data=...)\<close>,
  \<^verbatim>\<open>send(bytes_data=...)\<close> and \<^verbatim>\<open>close(code=...)\<close>, in the order of the calls.\<close>

datatype frame =
    Send_text text_data
  | Send_bytes bytes
  | Close "nat option"

text \<open>How a handler coroutine ends: it returns, or an exception leaves it.\<close>

datatype outcome = Returned | Propagated exn

text \<open>How the iteration of a response sequence ends: the sequence is exhausted, the
  loop is left by \<^verbatim>\<open>break\<close>, or the iteration raises.\<close>

datatype loop_end = Exhausted | Broke | Raised exn

text \<open>Every consumer writes frames to its connection and entries to the logger.\<close>

record consumer =
  sent :: "frame list"
  logged :: "exn list"

definition send_text :: "text_data \<Rightarrow> ('a consumer_scheme) \<Rightarrow> ('a consumer_scheme)" where
  "send_text t s = s\<lparr>sent := sent s @ [Send_text t]\<rparr>"

definition send_bytes :: "bytes \<Rightarrow> ('a consumer_scheme) \<Rightarrow> ('a consumer_scheme)" where
  "send_bytes b s = s\<lparr>sent := sent s @ [Send_bytes b]\<rparr>"

definition close :: "nat option \<Rightarrow> ('a consumer_scheme) \<Rightarrow> ('a consumer_scheme)" where
  "close code s = s\<lparr>sent := sent s @ [Close code]\<rparr>"

definition logger_exception :: "exn \<Rightarrow> ('a consumer_scheme) \<Rightarrow> ('a consumer_scheme)" where
  "logger_exception e s = s\<lparr>logged := logged s @ [e]\<rparr>"

section \<open>Consumers that run the execution engine\<close>

text \<open>
  The attributes shared by \<^verbatim>\<open>AppConsumer\<close>, \<^verbatim>\<open>StoreAppConsumer\<close>,
  \<^verbatim>\<open>PlaygroundConsumer\<close> and \<^verbatim>\<open>TwilioVoiceConsumer\<close>.  \<open>connected\<close> is the
  liveness flag \<^verbatim>\<open>self._connected\<close>; \<open>task_cancelled\<close> is what
  \<^verbatim>\<open>asyncio.current_task().cancelled()\<close> returns in the handler; \<open>app_runner\<close> is the
  execution-run handle \<^verbatim>\<open>self._app_runner\<close> (\<open>None\<close> when the attribute is falsy);
  \<open>event_response_task\<close> says whether \<^verbatim>\<open>self._event_response_task\<close> is set and
  \<open>task_cancels\<close> counts the calls of its \<^verbatim>\<open>cancel()\<close>; \<open>runs\<close> are the requests
  given to \<^verbatim>\<open>self._app_runner.run\<close> and \<open>stops\<close> the handles on which \<^verbatim>\<open>stop()\<close>
  was awaited, both in call order.
\<close>

record run_consumer = consumer +
  connected :: bool
  task_cancelled :: bool
  app_runner :: "nat option"
  event_response_task :: bool
  task_cancels :: nat
  runs :: "app_runner_request list"
  stops :: "nat list"

section \<open>AppConsumer\<close>

text \<open>
  The further attributes of an \<^verbatim>\<open>AppConsumer\<close> (and of \<^verbatim>\<open>StoreAppConsumer\<close>, which
  only overrides \<^verbatim>\<open>connect\<close>).  \<open>app_id\<close> and \<open>session\<close> are the attributes
  \<^verbatim>\<open>self.app_id\<close> and \<^verbatim>\<open>self._session\<close>, which \<^verbatim>\<open>connect\<close> never assigns:
  \<open>None\<close> is the missing attribute, whose read raises \<^verbatim>\<open>AttributeError\<close>.
\<close>

record user =
  username :: string
  is_anonymous :: bool

record app_consumer = run_consumer +
  session_id :: string
  user_of :: "user option"
  app_id :: "string option"
  session :: "json option"

text \<open>\<^verbatim>\<open>AppConsumer.disconnect\<close>.\<close>

definition app_disconnect :: "nat \<Rightarrow> app_consumer \<Rightarrow> app_consumer" where
  "app_disconnect close_code s =
     (let s1 = s\<lparr>connected := False\<rparr>
      in case app_runner s1 of
           Some h \<Rightarrow> s1\<lparr>stops := stops s1 @ [h]\<rparr>
         | None \<Rightarrow> s1)"

text \<open>\<^verbatim>\<open>AppConsumer.stop\<close>.\<close>

definition app_stop :: "app_consumer \<Rightarrow> app_consumer" where
  "app_stop s =
     (let s1 = s\<lparr>connected := False\<rparr>;
          s2 = (if event_response_task s1 then s1\<lparr>task_cancels := task_cancels s1 + 1\<rparr> else s1)
      in close None s2)"

text \<open>The body of the \<^verbatim>\<open>async for\<close> of the \<^verbatim>\<open>run\<close> event, after the liveness check.\<close>

fun app_dispatch :: "json \<Rightarrow> response \<Rightarrow> app_consumer \<Rightarrow> app_consumer" where
  "app_dispatch rid (OUTPUT_STREAM_CHUNK deltas) s =
     send_text (Model_dump_json (OUTPUT_STREAM_CHUNK deltas)) s"
| "app_dispatch rid (ERRORS msgs) s =
     send_text (Json_dumps (JObject [(''errors'', JArray (map JString msgs)),
                                     (''request_id'', rid)])) s"
| "app_dispatch rid OUTPUT_STREAM_END s =
     send_text (Json_dumps (JObject [(''event'', JString ''done''),
                                     (''request_id'', rid)])) s"
| "app_dispatch rid _ s = s"

text \<open>The \<^verbatim>\<open>async for\<close> loop of the \<^verbatim>\<open>run\<close> event.\<close>

fun app_run_loop :: "json \<Rightarrow> step list \<Rightarrow> app_consumer \<Rightarrow> app_consumer \<times> loop_end" where
  "app_run_loop rid [] s = (s, Exhausted)"
| "app_run_loop rid (Engine_raises e # rest) s = (s, Raised e)"
| "app_run_loop rid (Client_disconnects code # rest) s = app_run_loop rid rest (app_disconnect code s)"
| "app_run_loop rid (Engine_yields r # rest) s =
     (if task_cancelled s \<or> \<not> connected s then (s, Broke)
      else app_run_loop rid rest (app_dispatch rid r s))"

text \<open>The \<^verbatim>\<open>run\<close> branch: the request is built, then the \<^verbatim>\<open>try\<close> block runs the
  engine and the loop; \<^verbatim>\<open>except Exception\<close> logs.  A missing run handle makes
  \<^verbatim>\<open>self._app_runner.run\<close> raise inside the \<^verbatim>\<open>try\<close>.\<close>

definition app_run_event :: "step list \<Rightarrow> json \<Rightarrow> json \<Rightarrow> app_consumer \<Rightarrow> app_consumer" where
  "app_run_event engine rid inp s =
     (let req = \<lparr>client_request_id = rid, request_session_id = session_id s, input = inp\<rparr>
      in case app_runner s of
           None \<Rightarrow> logger_exception ''Failed to run app: NoneType object has no attribute run'' s
         | Some h \<Rightarrow>
             (case app_run_loop rid engine (s\<lparr>runs := runs s @ [req]\<rparr>) of
                (s', Raised e) \<Rightarrow> logger_exception (''Failed to run app: '' @ e) s'
              | (s', _) \<Rightarrow> s'))"

text \<open>
  The collaborators of an \<^verbatim>\<open>AppConsumer\<close> handler that are not part of the consumer:
  \<open>engine\<close> is what iterating \<^verbatim>\<open>self._app_runner.run(request)\<close> gives (a synchronous
  raise of \<^verbatim>\<open>run\<close> is a sequence that starts with \<open>Engine_raises\<close>), \<open>create_asset\<close>
  is \<^verbatim>\<open>AppSessionFiles.create_asset(metadata, session_id, streaming=...)\<close>, which
  returns the \<^verbatim>\<open>objref\<close> of the asset, \<open>None\<close> for a falsy asset, or raises, and
  \<open>uuid4\<close> is \<^verbatim>\<open>str(uuid.uuid4())\<close>.
\<close>

record app_world =
  engine :: "step list"
  create_asset :: "json \<Rightarrow> string \<Rightarrow> json \<Rightarrow> exn + string option"
  uuid4 :: string

text \<open>The error frame of the \<^verbatim>\<open>create_asset\<close> event.\<close>

definition asset_error_frame :: "string \<Rightarrow> json \<Rightarrow> text_data" where
  "asset_error_frame msg rid =
     Json_dumps (JObject [(''errors'', JArray [JString msg]),
                          (''reply_to'', rid),
                          (''request_id'', rid),
                          (''asset_request_id'', rid)])"

text \<open>\<^verbatim>\<open>self._session.get("_prid", "")\<close>.\<close>

definition session_prid :: "app_consumer \<Rightarrow> exn + json" where
  "session_prid s =
     (case session s of
        None \<Rightarrow> Inl ''AppConsumer object has no attribute _session''
      | Some ses \<Rightarrow> json_get ses ''_prid'' (JString []))"

text \<open>The \<^verbatim>\<open>username\<close> entry of the asset metadata.\<close>

definition asset_username :: "app_consumer \<Rightarrow> exn + json" where
  "asset_username s =
     (case user_of s of
        Some u \<Rightarrow> if \<not> is_anonymous u then Inr (JString (username u)) else session_prid s
      | None \<Rightarrow> session_prid s)"

text \<open>
  The \<^verbatim>\<open>try\<close> block of the \<^verbatim>\<open>create_asset\<close> event, in the order Python evaluates it:
  \<open>Inl e\<close> when it raises \<open>e\<close>, otherwise the consumer after the frame it sent and
  whether it left the handler by \<^verbatim>\<open>return\<close>.
\<close>

definition create_asset_try ::
  "app_world \<Rightarrow> json \<Rightarrow> json \<Rightarrow> app_consumer \<Rightarrow> exn + (app_consumer \<times> bool)" where
  "create_asset_try w json_data rid s =
     (case json_get json_data ''data'' (JObject []) of Inl e \<Rightarrow> Inl e | Inr asset_data \<Rightarrow>
      case json_get asset_data ''file_name'' (JString (uuid4 w)) of Inl e \<Rightarrow> Inl e | Inr file_name \<Rightarrow>
      case json_get asset_data ''mime_type'' (JString ''application/octet-stream'') of
        Inl e \<Rightarrow> Inl e | Inr mime_type \<Rightarrow>
      case app_id s of None \<Rightarrow> Inl ''AppConsumer object has no attribute app_id'' | Some app \<Rightarrow>
      case asset_username s of Inl e \<Rightarrow> Inl e | Inr uname \<Rightarrow>
      case json_get asset_data ''streaming'' (JBool False) of Inl e \<Rightarrow> Inl e | Inr streaming \<Rightarrow>
      case create_asset w
             (JObject [(''file_name'', file_name), (''mime_type'', mime_type),
                       (''app_uuid'', JString app), (''username'', uname)])
             (session_id s) streaming of
        Inl e \<Rightarrow> Inl e
      | Inr None \<Rightarrow> Inr (send_text (asset_error_frame ''Failed to create asset'' rid) s, True)
      | Inr (Some objref) \<Rightarrow>
          Inr (send_text (Json_dumps (JObject [(''asset'', JString objref),
                                               (''reply_to'', rid),
                                               (''request_id'', rid),
                                               (''asset_request_id'', rid)])) s, False))"

text \<open>The \<^verbatim>\<open>create_asset\<close> branch with its \<^verbatim>\<open>except Exception\<close> handler.\<close>

definition app_create_asset_event ::
  "app_world \<Rightarrow> json \<Rightarrow> json \<Rightarrow> app_consumer \<Rightarrow> app_consumer \<times> bool" where
  "app_create_asset_event w json_data rid s =
     (case create_asset_try w json_data rid s of
        Inr r \<Rightarrow> r
      | Inl e \<Rightarrow> (send_text (asset_error_frame e rid) (logger_exception e s), False))"

text \<open>
  \<^verbatim>\<open>AppConsumer._respond_to_event\<close>, on the parsed frame \<^verbatim>\<open>json.loads(text_data)\<close>.
  The first \<^verbatim>\<open>if\<close>/\<^verbatim>\<open>elif\<close> handles \<^verbatim>\<open>run\<close> and \<^verbatim>\<open>create_asset\<close>, the second one
  \<^verbatim>\<open>delete_asset\<close> (a placeholder) and \<^verbatim>\<open>stop\<close>.
\<close>

definition app_respond_to_event :: "app_world \<Rightarrow> json \<Rightarrow> app_consumer \<Rightarrow> app_consumer \<times> outcome" where
  "app_respond_to_event w json_data s =
     (case json_get json_data ''id'' JNull of Inl e \<Rightarrow> (s, Propagated e) | Inr rid \<Rightarrow>
      case json_get json_data ''event'' JNull of Inl e \<Rightarrow> (s, Propagated e) | Inr event \<Rightarrow>
      case (if event = JString ''run'' then
              (case json_get json_data ''input'' (JObject []) of
                 Inl e \<Rightarrow> Inl e
               | Inr inp \<Rightarrow> Inr (app_run_event (engine w) rid inp s, False))
            else if event = JString ''create_asset'' then
              Inr (app_create_asset_event w json_data rid s)
            else Inr (s, False)) of
        Inl e \<Rightarrow> (s, Propagated e)
      | Inr (s1, True) \<Rightarrow> (s1, Returned)
      | Inr (s1, False) \<Rightarrow>
          if event = JString ''delete_asset'' then (s1, Returned)
          else if event = JString ''stop'' then (app_stop s1, Returned)
          else (s1, Returned))"

section \<open>PlaygroundConsumer\<close>

text \<open>
  \<^verbatim>\<open>PlaygroundConsumer.receive\<close> starts one handler for each frame and does not await
  it, and every handler assigns the handle it constructs to the shared attribute
  \<^verbatim>\<open>self._app_runner\<close>.  So, while a handler is suspended in its \<^verbatim>\<open>async for\<close>, it
  observes what the engine and the framework do (\<open>Awaits\<close>), or the handler of
  another run event of the session executes its assignment of \<^verbatim>\<open>self._app_runner\<close>
  (\<open>Other_run_assigns\<close>, with the handle that handler obtained).

  A \<^verbatim>\<open>PlaygroundConsumer\<close> has the shared attributes only.  Its collaborators:
  \<open>pg_engine\<close> is what happens while \<^verbatim>\<open>self._app_runner.run(request)\<close> is iterated,
  \<open>get_app_runner_async\<close> is \<^verbatim>\<open>PlaygroundViewSet().get_app_runner_async\<close> on the
  session id, the processor and provider slugs of the copied source, the input and the
  configuration (it returns a fresh handle, \<open>None\<close>, or raises), and \<open>pg_uuid4\<close> is
  \<^verbatim>\<open>str(uuid.uuid4())\<close>.
\<close>

datatype playground_step =
    Awaits step
  | Other_run_assigns "nat option"


text \<open>\<^verbatim>\<open>PlaygroundConsumer.disconnect\<close>.\<close>

definition playground_disconnect :: "nat \<Rightarrow> run_consumer \<Rightarrow> run_consumer" where
  "playground_disconnect close_code s =
     (let s1 = s\<lparr>connected := False\<rparr>;
          s2 = (if event_response_task s1 then s1\<lparr>task_cancels := task_cancels s1 + 1\<rparr> else s1)
      in case app_runner s2 of
           Some h \<Rightarrow> s2\<lparr>stops := stops s2 @ [h]\<rparr>
         | None \<Rightarrow> s2)"

text \<open>The body of the \<^verbatim>\<open>async for\<close> of the playground, after the liveness check
  (\<^verbatim>\<open>json.dumps\<close> is given the encoder \<^verbatim>\<open>JSONEncoder\<close> here).\<close>

fun playground_dispatch :: "json \<Rightarrow> response \<Rightarrow> run_consumer \<Rightarrow> run_consumer" where
  "playground_dispatch rid (OUTPUT_STREAM_CHUNK deltas) s =
     send_text (Model_dump_json (OUTPUT_STREAM_CHUNK deltas)) s"
| "playground_dispatch rid (OUTPUT chunks) s =
     send_text (Json_dumps (JObject [(''event'', JString ''done''),
                                     (''request_id'', rid),
                                     (''data'', chunks)])) s"
| "playground_dispatch rid _ s = s"

fun playground_run_loop ::
  "json \<Rightarrow> playground_step list \<Rightarrow> run_consumer \<Rightarrow> run_consumer \<times> loop_end" where
  "playground_run_loop rid [] s = (s, Exhausted)"
| "playground_run_loop rid (Awaits (Engine_raises e) # rest) s = (s, Raised e)"
| "playground_run_loop rid (Awaits (Client_disconnects code) # rest) s =
     playground_run_loop rid rest (playground_disconnect code s)"
| "playground_run_loop rid (Awaits (Engine_yields r) # rest) s =
     (if \<not> connected s then (s, Broke)
      else playground_run_loop rid rest (playground_dispatch rid r s))"
| "playground_run_loop rid (Other_run_assigns handle # rest) s =
     playground_run_loop rid rest (s\<lparr>app_runner := handle\<rparr>)"





section \<open>AssetStreamConsumer\<close>

text \<open>
  \<^verbatim>\<open>AssetStream\<close> (\<^verbatim>\<open>llmstack.assets.stream\<close>) is imported by the consumers; its methods
  are parameters here, over any type \<open>'st\<close> of asset: \<open>read_async\<close> gives the chunks the
  iteration from index 0 yields and the exception that ends it, if one does; \<open>finalize\<close>
  and \<open>append_chunk\<close> return the asset they leave, or raise.
\<close>

record 'st asset_stream =
  read_async :: "'st \<Rightarrow> bytes list \<times> exn option"
  finalize :: "'st \<Rightarrow> exn + 'st"
  append_chunk :: "bytes \<Rightarrow> 'st \<Rightarrow> exn + 'st"

text \<open>
  Modelled from the spec: the \<^verbatim>\<open>AssetStream\<close> class itself is not among the sources.  The
  spec describes it as an ordered, append-only sequence of byte chunks that is open for
  write or finalized, readable at any point from offset 0; an append after \<^verbatim>\<open>finalize\<close>
  fails with a programming error.  The durable content is the concatenation of the chunks.
\<close>

record asset_content =
  chunks :: "bytes list"
  finalized :: bool

definition AssetStream :: "asset_content asset_stream" where
  "AssetStream =
     \<lparr>read_async = (\<lambda>a. (chunks a, None)),
      finalize = (\<lambda>a. Inr (a\<lparr>finalized := True\<rparr>)),
      append_chunk = (\<lambda>b a. if finalized a then Inl ''append to a finalized stream''
                              else Inr (a\<lparr>chunks := chunks a @ [b]\<rparr>))\<rparr>"

definition content :: "asset_content \<Rightarrow> bytes" where
  "content a = concat (chunks a)"

text \<open>\<open>asset\<close> is \<^verbatim>\<open>self._asset\<close>, what \<^verbatim>\<open>get_asset_by_objref\<close> returned at connect
  time: \<open>None\<close> when the handle did not resolve.\<close>

record 'st asset_stream_consumer = consumer +
  asset :: "'st option"

text \<open>\<^verbatim>\<open>bytes.split(sep)\<close> for a one-byte separator: never an empty list.\<close>

fun split_bytes :: "char \<Rightarrow> bytes \<Rightarrow> bytes list" where
  "split_bytes sep [] = [[]]"
| "split_bytes sep (c # cs) =
     (if c = sep then [] # split_bytes sep cs
      else (case split_bytes sep cs of
              [] \<Rightarrow> [[c]]
            | x # xs \<Rightarrow> (c # x) # xs))"

definition newline :: char where
  "newline = CHR 0x0A"

text \<open>\<^verbatim>\<open>async for chunk in asset_stream.read_async(start_index=0): await
  self.send(bytes_data=chunk)\<close>.\<close>

fun send_chunks :: "bytes list \<Rightarrow> ('a consumer_scheme) \<Rightarrow> ('a consumer_scheme)" where
  "send_chunks [] s = s"
| "send_chunks (c # cs) s = send_chunks cs (send_bytes c s)"

text \<open>
  The \<^verbatim>\<open>try\<close> block of the asset handler on a resolved asset \<open>a\<close>: the consumer it
  leaves and the exception it raised, if it did.  The two \<^verbatim>\<open>if\<close> statements run one
  after the other; nothing follows the \<^verbatim>\<open>return\<close> of the finalize branch.
\<close>

definition asset_read_part ::
  "'st asset_stream \<Rightarrow> bytes \<Rightarrow> 'st \<Rightarrow> 'st asset_stream_consumer
     \<Rightarrow> 'st asset_stream_consumer \<times> exn option" where
  "asset_read_part ops event a s =
     (if event = ''read'' then
        (case read_async ops a of (cs, err) \<Rightarrow> (send_chunks cs s, err))
      else (s, None))"

definition asset_write_part ::
  "'st asset_stream \<Rightarrow> bytes \<Rightarrow> bytes \<Rightarrow> 'st \<Rightarrow> 'st asset_stream_consumer
     \<Rightarrow> 'st asset_stream_consumer \<times> exn option" where
  "asset_write_part ops event bytes_data a s =
     (if event = ''write'' then
        (if bytes_data = ''write'' @ [newline] then
           (case finalize ops a of
              Inl e \<Rightarrow> (s, Some e)
            | Inr a' \<Rightarrow> (close None (s\<lparr>asset := Some a'\<rparr>), None))
         else
           (case append_chunk ops (drop 6 bytes_data) a of
              Inl e \<Rightarrow> (s, Some e)
            | Inr a' \<Rightarrow> (s\<lparr>asset := Some a'\<rparr>, None)))
      else (s, None))"

definition asset_try ::
  "'st asset_stream \<Rightarrow> bytes \<Rightarrow> bytes \<Rightarrow> 'st \<Rightarrow> 'st asset_stream_consumer
     \<Rightarrow> 'st asset_stream_consumer \<times> exn option" where
  "asset_try ops event bytes_data a s =
     (case asset_read_part ops event a s of
        (s1, Some e) \<Rightarrow> (s1, Some e)
      | (s1, None) \<Rightarrow> asset_write_part ops event bytes_data a s1)"

text \<open>
  \<^verbatim>\<open>AssetStreamConsumer._respond_to_event\<close>.  \<^verbatim>\<open>receive\<close> passes \<open>None\<close> for a text
  frame.  \<^verbatim>\<open>except Exception\<close> logs, sends an empty binary frame and closes.
\<close>

definition asset_respond_to_event ::
  "'st asset_stream \<Rightarrow> bytes option \<Rightarrow> 'st asset_stream_consumer
     \<Rightarrow> 'st asset_stream_consumer \<times> outcome" where
  "asset_respond_to_event ops bytes_opt s =
     (case bytes_opt of
        None \<Rightarrow> (s, Returned)
      | Some bytes_data \<Rightarrow>
          if bytes_data = [] then (s, Returned)
          else
            (case split_bytes newline bytes_data of
               [] \<Rightarrow> (s, Propagated ''IndexError: list index out of range'')
             | event # _ \<Rightarrow>
                 (case asset s of
                    None \<Rightarrow> (close (Some 1008) s, Returned)
                  | Some a \<Rightarrow>
                      (case asset_try ops event bytes_data a s of
                         (s1, None) \<Rightarrow> (s1, Returned)
                       | (s1, Some e) \<Rightarrow>
                           (close None (send_bytes [] (logger_exception e s1)), Returned)))))"

text \<open>
  \<^verbatim>\<open>AssetStreamConsumer.receive\<close> starts \<^verbatim>\<open>_respond_to_event(bytes_data)\<close> with
  \<^verbatim>\<open>run_coro_in_new_loop\<close> and does not await it: the handlers that were started run in
  no fixed order.  A session is the consumer together with the frames whose handlers
  were started and have not run yet; \<open>Handler_runs n\<close> runs the handler at position
  \<open>n\<close> of them, as one step.
\<close>

datatype asset_action =
    Frame_arrives "bytes option"
  | Handler_runs nat

fun asset_session ::
  "'st asset_stream \<Rightarrow> asset_action list
     \<Rightarrow> 'st asset_stream_consumer \<times> bytes option list
     \<Rightarrow> 'st asset_stream_consumer \<times> bytes option list" where
  "asset_session ops [] cfg = cfg"
| "asset_session ops (Frame_arrives f # rest) (s, started) =
     asset_session ops rest (s, started @ [f])"
| "asset_session ops (Handler_runs n # rest) (s, started) =
     (if n < length started then
        asset_session ops rest
          (fst (asset_respond_to_event ops (started ! n) s), take n started @ drop (Suc n) started)
      else asset_session ops rest (s, started))"

text \<open>The schedule in which the handler of each frame runs before the next frame
  arrives.\<close>

definition in_order :: "bytes option list \<Rightarrow> asset_action list" where
  "in_order fs = concat (map (\<lambda>f. [Frame_arrives f, Handler_runs 0]) fs)"

section \<open>ConnectionConsumer\<close>

text \<open>
  Modelled from the spec: \<^verbatim>\<open>Connection\<close>, \<^verbatim>\<open>ConnectionStatus\<close> and
  \<^verbatim>\<open>ConnectionActivationOutput\<close> are imported by the consumers.  An activation event is
  a completed connection with its status, an intermediate output with its data, a bare
  mapping, or anything else.
\<close>

datatype connection_status = ACTIVE | FAILED | CONNECTING

datatype activation_event =
    Connection connection_status json
  | ConnectionActivationOutput json
  | Dict "(string \<times> json) list"
  | Other_event

datatype activation_item =
    Actor_yields activation_event
  | Actor_raises exn
  | Actor_ends

text \<open>
  The task created by \<^verbatim>\<open>loop.create_task(self._activate_connection())\<close>, and the
  coroutine objects that were created by calling an \<^verbatim>\<open>async def\<close> method without
  awaiting the call: the body of such a coroutine never runs.
\<close>

datatype task_state = Task_pending | Task_done | Task_cancel_requested

datatype coroutine = Disconnect_coroutine nat | Close_coroutine nat

text \<open>
  \<open>actor_inputs\<close> are the inputs accepted by the actor's \<^verbatim>\<open>input\<close>, \<open>actor_stops\<close>
  counts the calls of the actor's \<^verbatim>\<open>stop()\<close>, \<open>set_connections\<close> are the arguments of
  \<^verbatim>\<open>set_connection\<close>, \<open>activation_task\<close> is \<^verbatim>\<open>self._activation_task\<close>.
\<close>

record connection_consumer = consumer +
  actor_inputs :: "json list"
  actor_stops :: nat
  set_connections :: "json list"
  activation_task :: "task_state option"
  never_awaited :: "coroutine list"

text \<open>\<^verbatim>\<open>ConnectionConsumer.disconnect\<close>: the body that runs when the coroutine is
  awaited.  Its last statement calls \<^verbatim>\<open>self.close(code=close_code)\<close> without
  awaiting it.\<close>

definition connection_disconnect :: "nat \<Rightarrow> connection_consumer \<Rightarrow> connection_consumer" where
  "connection_disconnect close_code s =
     (let s1 = s\<lparr>actor_stops := actor_stops s + 1\<rparr>;
          s2 = (if activation_task s1 = Some Task_pending
                then s1\<lparr>activation_task := Some Task_cancel_requested\<rparr> else s1)
      in s2\<lparr>never_awaited := never_awaited s2 @ [Close_coroutine close_code]\<rparr>)"

text \<open>
  \<^verbatim>\<open>ConnectionConsumer.receive\<close> on \<^verbatim>\<open>json.loads(text_data or "{}")\<close>; \<open>actor_input\<close>
  is the actor's \<^verbatim>\<open>input\<close>, which accepts the value or raises.  The \<^verbatim>\<open>finally\<close>
  clause calls \<^verbatim>\<open>self.disconnect(1000)\<close> and drops the coroutine it gets.
\<close>

definition connection_receive ::
  "(json \<Rightarrow> exn option) \<Rightarrow> json option \<Rightarrow> connection_consumer
     \<Rightarrow> connection_consumer \<times> outcome" where
  "connection_receive actor_input text_data s =
     (let json_data = (case text_data of None \<Rightarrow> JObject [] | Some j \<Rightarrow> j) in
      case json_get json_data ''input'' (JObject []) of Inl e \<Rightarrow> (s, Propagated e) | Inr inp \<Rightarrow>
      case json_get json_data ''event'' JNull of Inl e \<Rightarrow> (s, Propagated e) | Inr event \<Rightarrow>
      let s1 = (if event = JString ''activate''
                then s\<lparr>activation_task := Some Task_pending\<rparr> else s)
      in if event = JString ''input'' \<and> inp = JString ''terminate'' then
           let s2 = (case actor_input inp of
                       None \<Rightarrow> s1\<lparr>actor_inputs := actor_inputs s1 @ [inp]\<rparr>
                     | Some e \<Rightarrow> logger_exception e s1)
           in (s2\<lparr>never_awaited := never_awaited s2 @ [Disconnect_coroutine 1000]\<rparr>, Returned)
         else (s1, Returned))"

text \<open>The body of the \<^verbatim>\<open>async for\<close> of \<^verbatim>\<open>_activate_connection\<close>.\<close>

fun activation_dispatch :: "activation_event \<Rightarrow> connection_consumer \<Rightarrow> connection_consumer" where
  "activation_dispatch (Connection st c) s =
     (let s1 = (if st = ACTIVE then s\<lparr>set_connections := set_connections s @ [c]\<rparr> else s);
          s2 = send_text (Json_dumps (JObject
                 [(''event'', JString (if st = ACTIVE then ''success'' else ''error''))])) s1
      in s2\<lparr>actor_stops := actor_stops s2 + 1\<rparr>)"
| "activation_dispatch (ConnectionActivationOutput d) s =
     send_text (Json_dumps (JObject [(''event'', JString ''output''), (''output'', d)])) s"
| "activation_dispatch (Dict c) s =
     (let connection = (case map_of c ''connection'' of None \<Rightarrow> JNull | Some v \<Rightarrow> v);
          s1 = (if truthy connection
                then s\<lparr>set_connections := set_connections s @ [connection]\<rparr> else s);
          err = (case map_of c ''error'' of None \<Rightarrow> JNull | Some v \<Rightarrow> v)
      in if truthy err
         then send_text (Json_dumps (JObject [(''event'', JString ''error''), (''error'', err)])) s1
         else s1)"
| "activation_dispatch Other_event s = s"

text \<open>
  One turn of the activation task, on what the actor's output gives next: a value, an
  exception, or its end.  The task runs only while it is pending (a task whose
  cancellation was requested gets \<^verbatim>\<open>CancelledError\<close> at its next \<^verbatim>\<open>await\<close>).
  \<^verbatim>\<open>except Exception\<close> logs and stops the actor.
\<close>

definition activation_turn :: "activation_item \<Rightarrow> connection_consumer \<Rightarrow> connection_consumer" where
  "activation_turn item s =
     (if activation_task s = Some Task_pending then
        (case item of
           Actor_yields c \<Rightarrow> activation_dispatch c s
         | Actor_raises e \<Rightarrow>
             (logger_exception e s)\<lparr>actor_stops := actor_stops s + 1,
                                     activation_task := Some Task_done\<rparr>
         | Actor_ends \<Rightarrow> s\<lparr>activation_task := Some Task_done\<rparr>)
      else s)"

text \<open>What happens on an activation session, in order: the client's frames reach
  \<^verbatim>\<open>receive\<close>, the actor's events reach the activation task.\<close>

datatype connection_event =
    Client_sends "json option"
  | Actor_emits activation_item

fun connection_session ::
  "(json \<Rightarrow> exn option) \<Rightarrow> connection_event list \<Rightarrow> connection_consumer \<Rightarrow> connection_consumer" where
  "connection_session actor_input [] s = s"
| "connection_session actor_input (Client_sends t # rest) s =
     connection_session actor_input rest (fst (connection_receive actor_input t s))"
| "connection_session actor_input (Actor_emits i # rest) s =
     connection_session actor_input rest (activation_turn i s)"

section \<open>TwilioVoiceConsumer\<close>

text \<open>
  \<open>input_audio_stream\<close> is \<^verbatim>\<open>self._input_audio_stream\<close>: \<open>None\<close> until the
  \<^verbatim>\<open>start\<close> loop attaches an \<^verbatim>\<open>AssetStream\<close> over what \<^verbatim>\<open>get_asset_by_objref\<close>
  returned (a value of \<open>'st\<close>, whatever it is).  \<open>tw_session_id\<close> is
  \<^verbatim>\<open>self._session_id\<close>, \<open>stream_sid\<close> is \<^verbatim>\<open>self._stream_sid\<close>, and
  \<open>output_audio_tasks\<close> are the object references for which
  \<^verbatim>\<open>_process_output_audio_stream\<close> was started.
\<close>

record 'st twilio_consumer = run_consumer +
  tw_session_id :: string
  input_audio_stream :: "'st option"
  stream_sid :: json
  output_audio_tasks :: "json list"

text \<open>
  The collaborators: the engine, \<^verbatim>\<open>get_asset_by_objref\<close>, the methods of
  \<^verbatim>\<open>AssetStream\<close>, and the library functions \<^verbatim>\<open>base64.b64decode\<close>,
  \<^verbatim>\<open>base64.b64encode\<close>, \<^verbatim>\<open>audioop.ulaw2lin(data, width)\<close> and
  \<^verbatim>\<open>audioop.ratecv(data, width, nchannels, inrate, outrate, None)[0]\<close>.
\<close>

record 'st twilio_world =
  tw_engine :: "step list"
  get_asset_by_objref :: "json \<Rightarrow> exn + 'st"
  tw_stream :: "'st asset_stream"
  b64decode :: "json \<Rightarrow> exn + bytes"
  b64encode :: "bytes \<Rightarrow> string"
  ulaw2lin :: "bytes \<Rightarrow> nat \<Rightarrow> exn + bytes"
  ratecv :: "bytes \<Rightarrow> nat \<Rightarrow> nat \<Rightarrow> nat \<Rightarrow> nat \<Rightarrow> exn + bytes"

text \<open>\<^verbatim>\<open>TwilioVoiceConsumer.disconnect\<close>.\<close>

definition twilio_disconnect :: "nat \<Rightarrow> 'st twilio_consumer \<Rightarrow> 'st twilio_consumer" where
  "twilio_disconnect close_code s =
     (let s1 = s\<lparr>connected := False\<rparr>;
          s2 = (case app_runner s1 of
                  Some h \<Rightarrow> s1\<lparr>stops := stops s1 @ [h]\<rparr>
                | None \<Rightarrow> s1)
      in close (Some close_code) s2)"

text \<open>\<^verbatim>\<open>value[1:]\<close> on a JSON value.\<close>

fun json_tail :: "json \<Rightarrow> exn + json" where
  "json_tail (JString x) = Inr (JString (drop 1 x))"
| "json_tail (JArray xs) = Inr (JArray (drop 1 xs))"
| "json_tail _ = Inl ''TypeError: object is not subscriptable''"

text \<open>The body of the \<^verbatim>\<open>async for\<close> of the \<^verbatim>\<open>start\<close> event, after the liveness
  check.  Nothing catches what it raises.\<close>

fun twilio_dispatch ::
  "'st twilio_world \<Rightarrow> response \<Rightarrow> 'st twilio_consumer \<Rightarrow> exn + 'st twilio_consumer" where
  "twilio_dispatch w (OUTPUT_STREAM_CHUNK deltas) s =
     (case map_of deltas ''agent_input_audio_stream'' of
        Some v \<Rightarrow>
          (case json_tail v of
             Inl e \<Rightarrow> Inl e
           | Inr objref \<Rightarrow>
               (case get_asset_by_objref w objref of
                  Inl e \<Rightarrow> Inl e
                | Inr a \<Rightarrow> Inr (s\<lparr>input_audio_stream := Some a\<rparr>)))
      | None \<Rightarrow>
          (case map_of deltas ''agent_output_audio_stream__0'' of
             Some v \<Rightarrow>
               (case json_tail v of
                  Inl e \<Rightarrow> Inl e
                | Inr objref \<Rightarrow> Inr (s\<lparr>output_audio_tasks := output_audio_tasks s @ [objref]\<rparr>))
           | None \<Rightarrow>
               (case map_of deltas ''agent_input_audio_stream_started_at'' of
                  Some v \<Rightarrow>
                    Inr (send_text (Json_dumps (JObject [(''event'', JString ''clear''),
                                                         (''streamSid'', stream_sid s)])) s)
                | None \<Rightarrow> Inr s)))"
| "twilio_dispatch w _ s = Inr s"

fun twilio_start_loop ::
  "'st twilio_world \<Rightarrow> step list \<Rightarrow> 'st twilio_consumer \<Rightarrow> 'st twilio_consumer \<times> loop_end" where
  "twilio_start_loop w [] s = (s, Exhausted)"
| "twilio_start_loop w (Engine_raises e # rest) s = (s, Raised e)"
| "twilio_start_loop w (Client_disconnects code # rest) s =
     twilio_start_loop w rest (twilio_disconnect code s)"
| "twilio_start_loop w (Engine_yields r # rest) s =
     (if \<not> connected s then (s, Broke)
      else (case twilio_dispatch w r s of
              Inl e \<Rightarrow> (s, Raised e)
            | Inr s' \<Rightarrow> twilio_start_loop w rest s'))"

text \<open>The conversion of the \<^verbatim>\<open>media\<close> event: base64 to G.711 u-law bytes, to 16-bit
  linear PCM (2 bytes a sample), from 8000 Hz to 24000 Hz on one channel.\<close>

definition twilio_transcode :: "'st twilio_world \<Rightarrow> json \<Rightarrow> exn + bytes" where
  "twilio_transcode w encoded_audio_chunk =
     (case b64decode w encoded_audio_chunk of Inl e \<Rightarrow> Inl e | Inr ulaw_data \<Rightarrow>
      case ulaw2lin w ulaw_data 2 of Inl e \<Rightarrow> Inl e | Inr pcm_data \<Rightarrow>
      ratecv w pcm_data 2 1 8000 24000)"

text \<open>The \<^verbatim>\<open>media\<close> branch.  An attached \<^verbatim>\<open>AssetStream\<close> object is truthy.\<close>

definition twilio_media ::
  "'st twilio_world \<Rightarrow> json \<Rightarrow> 'st twilio_consumer \<Rightarrow> 'st twilio_consumer \<times> outcome" where
  "twilio_media w json_data s =
     (case json_get json_data ''media'' (JObject []) of Inl e \<Rightarrow> (s, Propagated e) | Inr media \<Rightarrow>
      case json_get media ''payload'' (JString []) of Inl e \<Rightarrow> (s, Propagated e) | Inr encoded_audio_chunk \<Rightarrow>
      if \<not> truthy encoded_audio_chunk \<or> input_audio_stream s = None then (s, Returned)
      else
        (case input_audio_stream s of
           None \<Rightarrow> (s, Returned)
         | Some a \<Rightarrow>
             (case twilio_transcode w encoded_audio_chunk of
                Inl e \<Rightarrow> (logger_exception (''Error converting audio format: '' @ e) s, Returned)
              | Inr pcm_upsampled \<Rightarrow>
                  (case append_chunk (tw_stream w) pcm_upsampled a of
                     Inl e \<Rightarrow>
                       (logger_exception (''Error converting audio format: '' @ e) s, Returned)
                   | Inr a' \<Rightarrow> (s\<lparr>input_audio_stream := Some a'\<rparr>, Returned)))))"

text \<open>The \<^verbatim>\<open>start\<close> branch.\<close>

definition twilio_start ::
  "'st twilio_world \<Rightarrow> json \<Rightarrow> 'st twilio_consumer \<Rightarrow> 'st twilio_consumer \<times> outcome" where
  "twilio_start w json_data s =
     (case json_get json_data ''start'' (JObject []) of Inl e \<Rightarrow> (s, Propagated e) | Inr start \<Rightarrow>
      case json_get start ''streamSid'' (JString []) of Inl e \<Rightarrow> (s, Propagated e) | Inr sid \<Rightarrow>
      let s1 = s\<lparr>stream_sid := sid\<rparr> in
      case app_runner s1 of
        None \<Rightarrow> (s1, Propagated ''AttributeError: NoneType object has no attribute run'')
      | Some h \<Rightarrow>
          (case twilio_start_loop w (tw_engine w)
                  (s1\<lparr>runs := runs s1 @ [\<lparr>client_request_id = sid,
                                            request_session_id = tw_session_id s1,
                                            input = JObject []\<rparr>]\<rparr>) of
             (s2, Raised e) \<Rightarrow> (s2, Propagated e)
           | (s2, _) \<Rightarrow> (s2, Returned)))"

text \<open>\<^verbatim>\<open>TwilioVoiceConsumer._respond_to_event\<close>, on the parsed frame.\<close>

definition twilio_respond_to_event ::
  "'st twilio_world \<Rightarrow> json \<Rightarrow> 'st twilio_consumer \<Rightarrow> 'st twilio_consumer \<times> outcome" where
  "twilio_respond_to_event w json_data s =
     (case json_get json_data ''event'' JNull of Inl e \<Rightarrow> (s, Propagated e) | Inr event \<Rightarrow>
      if event = JString ''start'' then twilio_start w json_data s
      else if event = JString ''stop'' then
        (case app_runner s of
           None \<Rightarrow> (s, Propagated ''AttributeError: NoneType object has no attribute stop'')
         | Some h \<Rightarrow> (s\<lparr>stops := stops s @ [h], app_runner := None\<rparr>, Returned))
      else if event = JString ''media'' then twilio_media w json_data s
      else (s, Returned))"

text \<open>\<^verbatim>\<open>TwilioVoiceConsumer._process_output_audio_stream\<close>: the chunks of the output
  asset are sent as \<^verbatim>\<open>media\<close> frames until an empty chunk.\<close>

fun relay_chunks ::
  "'st twilio_world \<Rightarrow> bytes list \<Rightarrow> 'st twilio_consumer \<Rightarrow> 'st twilio_consumer \<times> loop_end" where
  "relay_chunks w [] s = (s, Exhausted)"
| "relay_chunks w (chunk # rest) s =
     (if chunk = [] then (s, Broke)
      else relay_chunks w rest
             (send_text (Json_dumps (JObject
                [(''event'', JString ''media''),
                 (''streamSid'', stream_sid s),
                 (''media'', JObject [(''payload'', JString (b64encode w chunk))])])) s))"

definition process_output_audio_stream ::
  "'st twilio_world \<Rightarrow> json \<Rightarrow> 'st twilio_consumer \<Rightarrow> 'st twilio_consumer \<times> outcome" where
  "process_output_audio_stream w audio_stream s =
     (case get_asset_by_objref w audio_stream of
        Inl e \<Rightarrow> (s, Propagated e)
      | Inr a \<Rightarrow>
          (case read_async (tw_stream w) a of
             (cs, err) \<Rightarrow>
               (case relay_chunks w cs s of
                  (s', Exhausted) \<Rightarrow>
                    (s', case err of None \<Rightarrow> Returned | Some e \<Rightarrow> Propagated e)
                | (s', _) \<Rightarrow> (s', Returned))))"

section \<open>Example sessions\<close>

text \<open>A Web session right after \<^verbatim>\<open>connect\<close>, and a playground session right after
  \<^verbatim>\<open>connect\<close>, which has no run handle yet.\<close>

definition live_app_consumer :: app_consumer where
  "live_app_consumer =
     \<lparr>sent = [], logged = [], connected = True, task_cancelled = False, app_runner = Some 1,
      event_response_task = True, task_cancels = 0, runs = [], stops = [],
      session_id = ''session-1'', user_of = None, app_id = None, session = None\<rparr>"


text \<open>The two chunks of the first end-to-end scenario.\<close>

definition chunk_h :: response where
  "chunk_h = OUTPUT_STREAM_CHUNK [(''a'', JString ''h'')]"

definition chunk_hi :: response where
  "chunk_hi = OUTPUT_STREAM_CHUNK [(''a'', JString ''hi'')]"

text \<open>The collaborators of a Web session whose engine gives the schedule \<open>eng\<close> and
  whose asset storage is out of order; a Web session of a signed-in user whose
  \<^verbatim>\<open>app_id\<close> attribute is set.\<close>

definition scenario_world :: "step list \<Rightarrow> app_world" where
  "scenario_world eng =
     \<lparr>engine = eng, create_asset = (\<lambda>metadata sid streaming. Inl ''storage is down''),
      uuid4 = ''uuid-1''\<rparr>"

definition signed_in_app_consumer :: app_consumer where
  "signed_in_app_consumer =
     live_app_consumer\<lparr>user_of := Some \<lparr>username = ''alice'', is_anonymous = False\<rparr>,
                        app_id := Some ''app-1''\<rparr>"


text \<open>
  A voice call whose run announces its output audio asset and whose client then hangs
  up.  The output asset holds two chunks of one byte \<^verbatim>\<open>0xFF\<close> each, whose base64 text
  is \<^verbatim>\<open>/w==\<close>.
\<close>

definition relay_world :: "asset_content twilio_world" where
  "relay_world =
     \<lparr>tw_engine =
        [Engine_yields (OUTPUT_STREAM_CHUNK
           [(''agent_output_audio_stream__0'', JString ''+objref://sessionfiles/out'')]),
         Client_disconnects 1001],
      get_asset_by_objref =
        (\<lambda>objref. Inr \<lparr>chunks = [[CHR 0xFF], [CHR 0xFF]], finalized = True\<rparr>),
      tw_stream = AssetStream,
      b64decode = (\<lambda>j. Inl ''binascii.Error''),
      b64encode = (\<lambda>b. if b = [CHR 0xFF] then ''/w=='' else []),
      ulaw2lin = (\<lambda>b width. Inl ''audioop.error''),
      ratecv = (\<lambda>b width nchannels inrate outrate. Inl ''audioop.error'')\<rparr>"

definition start_frame :: json where
  "start_frame =
     JObject [(''event'', JString ''start''),
              (''start'', JObject [(''streamSid'', JString ''MZ1'')])]"

definition media_frame_ff :: frame where
  "media_frame_ff =
     Send_text (Json_dumps (JObject
       [(''event'', JString ''media''),
        (''streamSid'', JString ''MZ1''),
        (''media'', JObject [(''payload'', JString ''/w=='')])]))"

section \<open>Predicates of the statements\<close>

text \<open>
  The engine's invariant of the response taxonomy: after \<open>ERRORS\<close> or
  \<open>OUTPUT_STREAM_END\<close> it produces no further response for the request.  A step is
  not a response when the engine raises or the client disconnects; in the playground,
  also when another run assigns its handle.
\<close>

fun is_terminal :: "response \<Rightarrow> bool" where
  "is_terminal (ERRORS msgs) = True"
| "is_terminal OUTPUT_STREAM_END = True"
| "is_terminal _ = False"

fun no_response :: "step \<Rightarrow> bool" where
  "no_response (Engine_yields r) = False"
| "no_response _ = True"

fun pg_no_response :: "playground_step \<Rightarrow> bool" where
  "pg_no_response (Awaits st) = no_response st"
| "pg_no_response (Other_run_assigns handle) = True"


text \<open>The asset events: the frames that carry a tag, which are the non-empty binary
  frames.\<close>

fun is_event :: "bytes option \<Rightarrow> bool" where
  "is_event None = False"
| "is_event (Some b) = (b \<noteq> [])"

fun is_arrival :: "asset_action \<Rightarrow> bool" where
  "is_arrival (Frame_arrives f) = True"
| "is_arrival (Handler_runs n) = False"

fun arrives_event :: "asset_action \<Rightarrow> bool" where
  "arrives_event (Frame_arrives f) = is_event f"
| "arrives_event (Handler_runs n) = True"

text \<open>An asset connection on an empty asset that is open for write, one on an asset that
  holds one chunk, one whose handle did not resolve, and an \<^verbatim>\<open>AssetStream\<close> whose
  storage fails on every call.\<close>

definition fresh_asset_consumer :: "asset_content asset_stream_consumer" where
  "fresh_asset_consumer =
     \<lparr>sent = [], logged = [], asset = Some \<lparr>chunks = [], finalized = False\<rparr>\<rparr>"

definition one_chunk_asset_consumer :: "asset_content asset_stream_consumer" where
  "one_chunk_asset_consumer =
     \<lparr>sent = [], logged = [], asset = Some \<lparr>chunks = [''AAAA''], finalized = False\<rparr>\<rparr>"

definition unresolved_asset_consumer :: "asset_content asset_stream_consumer" where
  "unresolved_asset_consumer = \<lparr>sent = [], logged = [], asset = None\<rparr>"

definition broken_stream :: "asset_content asset_stream" where
  "broken_stream =
     \<lparr>read_async = (\<lambda>a. (chunks a, Some ''read failed'')),
      finalize = (\<lambda>a. Inl ''finalize failed''),
      append_chunk = (\<lambda>b a. Inl ''disk full'')\<rparr>"



text \<open>
  A voice session after \<^verbatim>\<open>connect\<close> and the same session with an empty input audio
  asset attached.  The stand-in for the libraries is tabulated on the payload of the
  example only: the base64 text \<^verbatim>\<open>/w==\<close> is the byte \<^verbatim>\<open>0xFF\<close>, u-law silence, which
  is one 16-bit sample of value 0.
\<close>

definition live_twilio_consumer :: "asset_content twilio_consumer" where
  "live_twilio_consumer =
     \<lparr>sent = [], logged = [], connected = True, task_cancelled = False, app_runner = Some 3,
      event_response_task = True, task_cancels = 0, runs = [], stops = [],
      tw_session_id = ''session-3'', input_audio_stream = None, stream_sid = JNull,
      output_audio_tasks = []\<rparr>"

definition attached_twilio_consumer :: "asset_content twilio_consumer" where
  "attached_twilio_consumer =
     live_twilio_consumer\<lparr>input_audio_stream := Some \<lparr>chunks = [], finalized = False\<rparr>\<rparr>"

definition silence_world :: "asset_content twilio_world" where
  "silence_world =
     \<lparr>tw_engine = [],
      get_asset_by_objref = (\<lambda>objref. Inr \<lparr>chunks = [], finalized = False\<rparr>),
      tw_stream = AssetStream,
      b64decode = (\<lambda>j. if j = JString ''/w=='' then Inr [CHR 0xFF] else Inl ''binascii.Error''),
      b64encode = (\<lambda>b. ''''),
      ulaw2lin = (\<lambda>b width. if b = [CHR 0xFF] \<and> width = 2 then Inr [CHR 0x00, CHR 0x00]
                               else Inl ''audioop.error''),
      ratecv = (\<lambda>b width nchannels inrate outrate.
                  if b = [CHR 0x00, CHR 0x00] \<and> width = 2 \<and> nchannels = 1
                     \<and> inrate = 8000 \<and> outrate = 24000
                  then Inr [CHR 0x00, CHR 0x00] else Inl ''audioop.error'')\<rparr>"

definition silence_frame :: json where
  "silence_frame =
     JObject [(''event'', JString ''media''),
              (''media'', JObject [(''payload'', JString ''/w=='')])]"

text \<open>An activation session after \<^verbatim>\<open>connect\<close>, and the two frames of the fifth
  end-to-end scenario.\<close>

definition idle_connection_consumer :: connection_consumer where
  "idle_connection_consumer =
     \<lparr>sent = [], logged = [], actor_inputs = [], actor_stops = 0, set_connections = [],
      activation_task = None, never_awaited = []\<rparr>"

definition activate_frame :: json where
  "activate_frame = JObject [(''event'', JString ''activate'')]"

definition terminate_frame :: json where
  "terminate_frame = JObject [(''event'', JString ''input''), (''input'', JString ''terminate'')]"

section \<open>Basic facts\<close>

lemma sent_send_text [simp]: "sent (send_text t s) = sent s @ [Send_text t]"
  by (simp add: send_text_def)

lemma sent_send_bytes [simp]: "sent (send_bytes b s) = sent s @ [Send_bytes b]"
  by (simp add: send_bytes_def)

lemma sent_close [simp]: "sent (close code s) = sent s @ [Close code]"
  by (simp add: close_def)

lemma sent_logger_exception [simp]: "sent (logger_exception e s) = sent s"
  by (simp add: logger_exception_def)

lemma app_disconnect_simps [simp]:
  "connected (app_disconnect code s) = False"
  "task_cancelled (app_disconnect code s) = task_cancelled s"
  "sent (app_disconnect code s) = sent s"
  "app_runner (app_disconnect code s) = app_runner s"
  by (simp_all add: app_disconnect_def Let_def split: option.split)

lemma playground_disconnect_simps [simp]:
  "connected (playground_disconnect code s) = False"
  "sent (playground_disconnect code s) = sent s"
  "app_runner (playground_disconnect code s) = app_runner s"
  by (simp_all add: playground_disconnect_def Let_def split: option.split)

lemma twilio_disconnect_simps [simp]:
  "connected (twilio_disconnect code s) = False"
  "sent (twilio_disconnect code s) = sent s @ [Close (Some code)]"
  by (simp_all add: twilio_disconnect_def Let_def close_def split: option.split)


section \<open>The dispatch loops and the liveness flag\<close>

text \<open>A loop over two schedules in a row is the loop over the second one, started where
  the first one was exhausted.\<close>

lemma app_run_loop_append:
  "app_run_loop rid (xs @ ys) s =
     (case app_run_loop rid xs s of (s', Exhausted) \<Rightarrow> app_run_loop rid ys s' | r \<Rightarrow> r)"
  by (induction rid xs s rule: app_run_loop.induct) (auto split: prod.splits loop_end.splits)

lemma playground_run_loop_append:
  "playground_run_loop rid (xs @ ys) s =
     (case playground_run_loop rid xs s of
        (s', Exhausted) \<Rightarrow> playground_run_loop rid ys s' | r \<Rightarrow> r)"
  by (induction rid xs s rule: playground_run_loop.induct)
     (auto split: prod.splits loop_end.splits)

text \<open>Nothing sets the liveness flag again, and a loop that finds it false sends
  nothing, whatever the engine still yields.\<close>

lemma app_run_loop_dead:
  "task_cancelled s \<or> \<not> connected s \<Longrightarrow> sent (fst (app_run_loop rid sched s)) = sent s"
  by (induction rid sched s rule: app_run_loop.induct) auto

lemma playground_run_loop_dead:
  "\<not> connected s \<Longrightarrow> sent (fst (playground_run_loop rid sched s)) = sent s"
  by (induction rid sched s rule: playground_run_loop.induct) auto

text \<open>
  The three loops over the engine's response sequence do check the flag: the frames
  sent over a schedule in which the client disconnects are the frames sent before the
  disconnect, and a loop that finds the flag false when the engine yields the next
  response leaves by \<^verbatim>\<open>break\<close>, with the consumer as it was.
\<close>

lemma dispatch_loops_check_liveness:
  "sent (fst (app_run_loop rid (pre @ Client_disconnects code # post) s))
     = sent (fst (app_run_loop rid pre s))
   \<and> sent (fst (playground_run_loop rid (pg_pre @ Awaits (Client_disconnects code) # pg_post) p))
     = sent (fst (playground_run_loop rid pg_pre p))
   \<and> (task_cancelled s \<or> \<not> connected s \<longrightarrow>
        app_run_loop rid (Engine_yields r # rest) s = (s, Broke))
   \<and> (\<not> connected p \<longrightarrow>
        playground_run_loop rid (Awaits (Engine_yields r) # pg_rest) p = (p, Broke))
   \<and> (\<not> connected t \<longrightarrow>
        twilio_start_loop w (Engine_yields r # rest) t = (t, Broke))"
proof -
  have a: "sent (fst (app_run_loop rid (pre @ Client_disconnects code # post) s))
             = sent (fst (app_run_loop rid pre s))"
    by (cases "app_run_loop rid pre s")
       (simp add: app_run_loop_append app_run_loop_dead split: loop_end.splits)
  have b: "sent (fst (playground_run_loop rid
                   (pg_pre @ Awaits (Client_disconnects code) # pg_post) p))
             = sent (fst (playground_run_loop rid pg_pre p))"
    by (cases "playground_run_loop rid pg_pre p")
       (simp add: playground_run_loop_append playground_run_loop_dead split: loop_end.splits)
  show ?thesis using a b by simp
qed

text \<open>
  C1, evaluated.  The claim is about every session, and on a voice session it fails:
  \<^verbatim>\<open>_process_output_audio_stream\<close>, the task that relays the output audio of the run,
  sends its \<^verbatim>\<open>media\<close> frames without reading the liveness flag, unlike the loop of the
  \<^verbatim>\<open>start\<close> event beside it.  In the call below the run announces its output audio
  asset and the client disconnects: the \<^verbatim>\<open>start\<close> handler leaves the session with the
  flag false and the connection closed, and the relay task then sends both chunks of
  the asset as \<^verbatim>\<open>media\<close> frames.
\<close>

theorem voice_relay_sends_after_disconnect:
  "twilio_respond_to_event relay_world start_frame live_twilio_consumer
     = (live_twilio_consumer
          \<lparr>sent := [Close (Some 1001)],
           connected := False,
           runs := [\<lparr>client_request_id = JString ''MZ1'', request_session_id = ''session-3'',
                     input = JObject []\<rparr>],
           stops := [3],
           stream_sid := JString ''MZ1'',
           output_audio_tasks := [JString ''objref://sessionfiles/out'']\<rparr>, Returned)
   \<and> sent (fst (process_output_audio_stream relay_world (JString ''objref://sessionfiles/out'')
                  (fst (twilio_respond_to_event relay_world start_frame live_twilio_consumer))))
     = [Close (Some 1001), media_frame_ff, media_frame_ff]"
proof -
  have 1: "twilio_respond_to_event relay_world start_frame live_twilio_consumer
     = (live_twilio_consumer
          \<lparr>sent := [Close (Some 1001)],
           connected := False,
           runs := [\<lparr>client_request_id = JString ''MZ1'', request_session_id = ''session-3'',
                     input = JObject []\<rparr>],
           stops := [3],
           stream_sid := JString ''MZ1'',
           output_audio_tasks := [JString ''objref://sessionfiles/out'']\<rparr>, Returned)"
    by (simp add: twilio_respond_to_event_def twilio_start_def relay_world_def start_frame_def
          live_twilio_consumer_def twilio_disconnect_def close_def Let_def)
  have 2: "sent (fst (process_output_audio_stream relay_world
                   (JString ''objref://sessionfiles/out'')
                   (live_twilio_consumer
                      \<lparr>sent := [Close (Some 1001)],
                       connected := False,
                       runs := [\<lparr>client_request_id = JString ''MZ1'',
                                 request_session_id = ''session-3'', input = JObject []\<rparr>],
                       stops := [3],
                       stream_sid := JString ''MZ1'',
                       output_audio_tasks := [JString ''objref://sessionfiles/out'']\<rparr>)))
     = [Close (Some 1001), media_frame_ff, media_frame_ff]"
    by (simp add: process_output_audio_stream_def relay_world_def AssetStream_def
          live_twilio_consumer_def media_frame_ff_def send_text_def)
  show ?thesis unfolding 1 using 2 by simp
qed

section \<open>Terminal variants\<close>

lemma app_run_loop_no_response:
  "list_all no_response sched \<Longrightarrow> sent (fst (app_run_loop rid sched s)) = sent s"
  by (induction rid sched s rule: app_run_loop.induct) auto

lemma playground_run_loop_no_response:
  "list_all pg_no_response sched \<Longrightarrow> sent (fst (playground_run_loop rid sched s)) = sent s"
  by (induction rid sched s rule: playground_run_loop.induct) auto

lemma playground_dispatch_terminal:
  "is_terminal t \<Longrightarrow> playground_dispatch rid t s = s"
  by (cases t) simp_all

lemma app_terminal_then_no_response:
  assumes "list_all no_response post"
  shows "sent (fst (app_run_loop rid (Engine_yields t # post) s))
           = sent (fst (app_run_loop rid [Engine_yields t] s))"
  using assms by (simp add: app_run_loop_no_response)

text \<open>
  C2, as stated, fails: the loop has no \<^verbatim>\<open>break\<close> after a terminal variant, it awaits
  the engine's next item.  When the engine yields \<open>OUTPUT_STREAM_END\<close> and then
  raises, which the invariant of the response taxonomy allows since an exception is
  not a response, the handler forwards the \<open>done\<close> frame and then logs the
  exception: it was still iterating the engine's sequence.
\<close>

theorem terminal_frame_then_still_iterating:
  "app_run_loop (JString ''r2'') [Engine_yields OUTPUT_STREAM_END, Engine_raises ''boom'']
     live_app_consumer
   = (live_app_consumer
        \<lparr>sent := [Send_text (Json_dumps (JObject [(''event'', JString ''done''),
                                                   (''request_id'', JString ''r2'')]))]\<rparr>,
      Raised ''boom'')
   \<and> app_respond_to_event
       (scenario_world [Engine_yields OUTPUT_STREAM_END, Engine_raises ''boom''])
       (JObject [(''event'', JString ''run''), (''id'', JString ''r2'')]) live_app_consumer
   = (live_app_consumer
        \<lparr>sent := [Send_text (Json_dumps (JObject [(''event'', JString ''done''),
                                                   (''request_id'', JString ''r2'')]))],
         logged := [''Failed to run app: boom''],
         runs := [\<lparr>client_request_id = JString ''r2'', request_session_id = ''session-1'',
                   input = JObject []\<rparr>]\<rparr>, Returned)"
  by (simp add: app_respond_to_event_def app_run_event_def live_app_consumer_def
        scenario_world_def send_text_def logger_exception_def)

text \<open>
  C2, amended.  On a live Web or Store session the dispatcher forwards the normalized
  frame of a terminal variant (\<open>errors\<close> and \<open>request_id\<close> for \<open>ERRORS\<close>;
  \<open>event: done\<close> and \<open>request_id\<close> for \<open>OUTPUT_STREAM_END\<close>) and goes on with
  the rest of the engine's sequence; when the sequence ends there, so does the
  iteration.  Under the engine's invariant that no response follows a terminal variant,
  that frame is the last one sent for the request, whatever else happens afterwards
  (the engine raises, the client disconnects): for any session state, nothing is sent
  after the step at which the terminal variant is yielded.  A playground session sends
  nothing for that step either, and nothing after it.
\<close>

theorem terminal_frame_is_last:
  "(connected s \<and> \<not> task_cancelled s \<longrightarrow>
      app_run_loop rid (Engine_yields (ERRORS msgs) # rest) s
        = app_run_loop rid rest
            (send_text (Json_dumps (JObject [(''errors'', JArray (map JString msgs)),
                                             (''request_id'', rid)])) s)
    \<and> app_run_loop rid (Engine_yields OUTPUT_STREAM_END # rest) s
        = app_run_loop rid rest
            (send_text (Json_dumps (JObject [(''event'', JString ''done''),
                                             (''request_id'', rid)])) s)
    \<and> app_run_loop rid [Engine_yields (ERRORS msgs)] s
        = (send_text (Json_dumps (JObject [(''errors'', JArray (map JString msgs)),
                                           (''request_id'', rid)])) s, Exhausted)
    \<and> app_run_loop rid [Engine_yields OUTPUT_STREAM_END] s
        = (send_text (Json_dumps (JObject [(''event'', JString ''done''),
                                           (''request_id'', rid)])) s, Exhausted)
    \<and> (list_all no_response post \<longrightarrow>
         sent (fst (app_run_loop rid (Engine_yields (ERRORS msgs) # post) s))
           = sent s @ [Send_text (Json_dumps (JObject [(''errors'', JArray (map JString msgs)),
                                                       (''request_id'', rid)]))]
       \<and> sent (fst (app_run_loop rid (Engine_yields OUTPUT_STREAM_END # post) s))
           = sent s @ [Send_text (Json_dumps (JObject [(''event'', JString ''done''),
                                                       (''request_id'', rid)]))]))
   \<and> (is_terminal t \<and> list_all no_response post \<longrightarrow>
        sent (fst (app_run_loop rid (pre @ Engine_yields t # post) s))
          = sent (fst (app_run_loop rid (pre @ [Engine_yields t]) s)))
   \<and> (is_terminal t \<and> list_all pg_no_response pg_post \<longrightarrow>
        sent (fst (playground_run_loop rid (pg_pre @ Awaits (Engine_yields t) # pg_post) p))
          = sent (fst (playground_run_loop rid pg_pre p)))"
proof -
  have live: "app_run_loop rid (Engine_yields (ERRORS msgs) # rest) s
        = app_run_loop rid rest
            (send_text (Json_dumps (JObject [(''errors'', JArray (map JString msgs)),
                                             (''request_id'', rid)])) s)
    \<and> app_run_loop rid (Engine_yields OUTPUT_STREAM_END # rest) s
        = app_run_loop rid rest
            (send_text (Json_dumps (JObject [(''event'', JString ''done''),
                                             (''request_id'', rid)])) s)
    \<and> app_run_loop rid [Engine_yields (ERRORS msgs)] s
        = (send_text (Json_dumps (JObject [(''errors'', JArray (map JString msgs)),
                                           (''request_id'', rid)])) s, Exhausted)
    \<and> app_run_loop rid [Engine_yields OUTPUT_STREAM_END] s
        = (send_text (Json_dumps (JObject [(''event'', JString ''done''),
                                           (''request_id'', rid)])) s, Exhausted)
    \<and> (list_all no_response post \<longrightarrow>
         sent (fst (app_run_loop rid (Engine_yields (ERRORS msgs) # post) s))
           = sent s @ [Send_text (Json_dumps (JObject [(''errors'', JArray (map JString msgs)),
                                                       (''request_id'', rid)]))]
       \<and> sent (fst (app_run_loop rid (Engine_yields OUTPUT_STREAM_END # post) s))
           = sent s @ [Send_text (Json_dumps (JObject [(''event'', JString ''done''),
                                                       (''request_id'', rid)]))])"
    if "connected s \<and> \<not> task_cancelled s"
    using that by (simp add: app_run_loop_no_response)
  have app: "sent (fst (app_run_loop rid (pre @ Engine_yields t # post) s))
          = sent (fst (app_run_loop rid (pre @ [Engine_yields t]) s))"
    if "is_terminal t \<and> list_all no_response post"
  proof (cases "app_run_loop rid pre s")
    case (Pair s' e)
    then show ?thesis
      using that app_terminal_then_no_response [of post rid t s']
      by (cases e) (simp_all add: app_run_loop_append)
  qed
  have pg: "sent (fst (playground_run_loop rid (pg_pre @ Awaits (Engine_yields t) # pg_post) p))
          = sent (fst (playground_run_loop rid pg_pre p))"
    if "is_terminal t \<and> list_all pg_no_response pg_post"
  proof (cases "playground_run_loop rid pg_pre p")
    case (Pair p' e)
    then show ?thesis
      using that
      by (cases e)
         (simp_all add: playground_run_loop_append playground_run_loop_no_response
            playground_dispatch_terminal)
  qed
  show ?thesis using live app pg by blast
qed

theorem terminal_frame_is_last_witness:
  "app_run_loop (JString ''r2'') [Engine_yields (ERRORS [''boom''])] live_app_consumer
     = (live_app_consumer
          \<lparr>sent := [Send_text (Json_dumps (JObject [(''errors'', JArray [JString ''boom'']),
                                                     (''request_id'', JString ''r2'')]))]\<rparr>,
        Exhausted)
   \<and> sent (fst (app_run_loop (JString ''r2'')
                  [Engine_yields chunk_h, Engine_yields OUTPUT_STREAM_END, Client_disconnects 1001]
                  live_app_consumer))
     = [Send_text (Model_dump_json chunk_h),
        Send_text (Json_dumps (JObject [(''event'', JString ''done''),
                                        (''request_id'', JString ''r2'')]))]"
proof -
  have live: "connected live_app_consumer \<and> \<not> task_cancelled live_app_consumer"
    by (simp add: live_app_consumer_def)
  have 1: "app_run_loop (JString ''r2'') [Engine_yields (ERRORS [''boom''])] live_app_consumer
     = (send_text (Json_dumps (JObject [(''errors'', JArray (map JString [''boom''])),
                                        (''request_id'', JString ''r2'')])) live_app_consumer,
        Exhausted)"
    using terminal_frame_is_last
      [where s = live_app_consumer and rid = "JString ''r2''" and msgs = "[''boom'']"] live
    by blast
  have 2: "sent (fst (app_run_loop (JString ''r2'')
                  ([Engine_yields chunk_h] @ Engine_yields OUTPUT_STREAM_END
                     # [Client_disconnects 1001]) live_app_consumer))
      = sent (fst (app_run_loop (JString ''r2'')
                  ([Engine_yields chunk_h] @ [Engine_yields OUTPUT_STREAM_END])
                  live_app_consumer))"
    using terminal_frame_is_last
      [where s = live_app_consumer and rid = "JString ''r2''" and t = OUTPUT_STREAM_END
         and pre = "[Engine_yields chunk_h]" and post = "[Client_disconnects 1001]"]
    by simp
  show ?thesis using 1 2
    by (simp add: live_app_consumer_def chunk_h_def send_text_def)
qed

section \<open>The first end-to-end scenario\<close>

text \<open>
  C3.  A connected Web session receives the frame
  \<^verbatim>\<open>{"event":"run","id":"r1","input":{"q":"hi"}}\<close> and the engine yields the chunk with
  deltas \<^verbatim>\<open>{"a":"h"}\<close>, the chunk with deltas \<^verbatim>\<open>{"a":"hi"}\<close> and
  \<open>OUTPUT_STREAM_END\<close>: the handler sends exactly three frames, the two responses as
  the engine serializes them and then \<^verbatim>\<open>{"event":"done","request_id":"r1"}\<close>, and
  returns.
\<close>

theorem scenario_1_three_frames:
  assumes "connected s" and "\<not> task_cancelled s" and "app_runner s = Some h"
    and "engine w = [Engine_yields (OUTPUT_STREAM_CHUNK [(''a'', JString ''h'')]),
                     Engine_yields (OUTPUT_STREAM_CHUNK [(''a'', JString ''hi'')]),
                     Engine_yields OUTPUT_STREAM_END]"
  shows "app_respond_to_event w
           (JObject [(''event'', JString ''run''), (''id'', JString ''r1''),
                     (''input'', JObject [(''q'', JString ''hi'')])]) s
         = (s\<lparr>sent := sent s @
                 [Send_text (Model_dump_json (OUTPUT_STREAM_CHUNK [(''a'', JString ''h'')])),
                  Send_text (Model_dump_json (OUTPUT_STREAM_CHUNK [(''a'', JString ''hi'')])),
                  Send_text (Json_dumps (JObject [(''event'', JString ''done''),
                                                  (''request_id'', JString ''r1'')]))],
              runs := runs s @
                 [\<lparr>client_request_id = JString ''r1'', request_session_id = session_id s,
                   input = JObject [(''q'', JString ''hi'')]\<rparr>]\<rparr>,
            Returned)"
  using assms by (simp add: app_respond_to_event_def app_run_event_def send_text_def)

theorem scenario_1_three_frames_witness:
  "app_respond_to_event
     (scenario_world [Engine_yields (OUTPUT_STREAM_CHUNK [(''a'', JString ''h'')]),
                      Engine_yields (OUTPUT_STREAM_CHUNK [(''a'', JString ''hi'')]),
                      Engine_yields OUTPUT_STREAM_END])
     (JObject [(''event'', JString ''run''), (''id'', JString ''r1''),
               (''input'', JObject [(''q'', JString ''hi'')])]) live_app_consumer
   = (live_app_consumer\<lparr>sent :=
         [Send_text (Model_dump_json (OUTPUT_STREAM_CHUNK [(''a'', JString ''h'')])),
          Send_text (Model_dump_json (OUTPUT_STREAM_CHUNK [(''a'', JString ''hi'')])),
          Send_text (Json_dumps (JObject [(''event'', JString ''done''),
                                          (''request_id'', JString ''r1'')]))],
        runs := [\<lparr>client_request_id = JString ''r1'', request_session_id = ''session-1'',
                  input = JObject [(''q'', JString ''hi'')]\<rparr>]\<rparr>,
      Returned)"
  using scenario_1_three_frames [of live_app_consumer 1
      "scenario_world [Engine_yields (OUTPUT_STREAM_CHUNK [(''a'', JString ''h'')]),
                      Engine_yields (OUTPUT_STREAM_CHUNK [(''a'', JString ''hi'')]),
                      Engine_yields OUTPUT_STREAM_END]"]
  by (simp add: live_app_consumer_def scenario_world_def)

section \<open>Exceptions of the run and create\_asset events\<close>

text \<open>
  C5.  When the engine raises while a \<^verbatim>\<open>run\<close> event is processed, the handler ends as
  if the engine's sequence had ended there, but for one entry in the log: it sends no
  frame for the exception and returns.  When the \<^verbatim>\<open>try\<close> block of a
  \<^verbatim>\<open>create_asset\<close> event raises \<open>e\<close>, the handler logs \<open>e\<close> and sends the frame with
  \<open>errors = [str(e)]\<close> and with \<open>reply_to\<close>, \<open>request_id\<close> and
  \<open>asset_request_id\<close> all equal to the \<open>id\<close> of the event.
\<close>

theorem run_exception_silent_create_asset_exception_reported:
  "(json_get json_data ''event'' JNull = Inr (JString ''run'')
      \<and> json_get json_data ''id'' JNull = Inr rid
      \<and> json_get json_data ''input'' (JObject []) = Inr inp
      \<and> app_runner s = Some h
      \<and> snd (app_run_loop rid pre
                (s\<lparr>runs := runs s @ [\<lparr>client_request_id = rid, request_session_id = session_id s,
                                       input = inp\<rparr>]\<rparr>)) = Exhausted
    \<longrightarrow> app_respond_to_event (w\<lparr>engine := pre @ Engine_raises e # post\<rparr>) json_data s
          = (logger_exception (''Failed to run app: '' @ e)
               (fst (app_respond_to_event (w\<lparr>engine := pre\<rparr>) json_data s)), Returned))
   \<and> (json_get json_data ''event'' JNull = Inr (JString ''create_asset'')
      \<and> json_get json_data ''id'' JNull = Inr rid
      \<and> create_asset_try w json_data rid s = Inl e
    \<longrightarrow> app_respond_to_event w json_data s
          = (s\<lparr>sent := sent s @
                  [Send_text (Json_dumps (JObject [(''errors'', JArray [JString e]),
                                                   (''reply_to'', rid),
                                                   (''request_id'', rid),
                                                   (''asset_request_id'', rid)]))],
               logged := logged s @ [e]\<rparr>, Returned))"
proof -
  have run: "app_respond_to_event (w\<lparr>engine := pre @ Engine_raises e # post\<rparr>) json_data s
          = (logger_exception (''Failed to run app: '' @ e)
               (fst (app_respond_to_event (w\<lparr>engine := pre\<rparr>) json_data s)), Returned)"
    if "json_get json_data ''event'' JNull = Inr (JString ''run'')"
      and "json_get json_data ''id'' JNull = Inr rid"
      and "json_get json_data ''input'' (JObject []) = Inr inp"
      and "app_runner s = Some h"
      and "snd (app_run_loop rid pre
                (s\<lparr>runs := runs s @ [\<lparr>client_request_id = rid, request_session_id = session_id s,
                                       input = inp\<rparr>]\<rparr>)) = Exhausted"
    using that
    by (cases "app_run_loop rid pre
                (s\<lparr>runs := runs s @ [\<lparr>client_request_id = rid, request_session_id = session_id s,
                                       input = inp\<rparr>]\<rparr>)")
       (simp add: app_respond_to_event_def app_run_event_def app_run_loop_append)
  have asset: "app_respond_to_event w json_data s
          = (s\<lparr>sent := sent s @
                  [Send_text (Json_dumps (JObject [(''errors'', JArray [JString e]),
                                                   (''reply_to'', rid),
                                                   (''request_id'', rid),
                                                   (''asset_request_id'', rid)]))],
               logged := logged s @ [e]\<rparr>, Returned)"
    if "json_get json_data ''event'' JNull = Inr (JString ''create_asset'')"
      and "json_get json_data ''id'' JNull = Inr rid"
      and "create_asset_try w json_data rid s = Inl e"
    using that
    by (simp add: app_respond_to_event_def app_create_asset_event_def asset_error_frame_def
          send_text_def logger_exception_def)
  show ?thesis using run asset by blast
qed

theorem run_exception_silent_create_asset_exception_reported_witness:
  "app_respond_to_event (scenario_world [Engine_yields chunk_h, Engine_raises ''boom''])
     (JObject [(''event'', JString ''run''), (''id'', JString ''r1'')]) live_app_consumer
   = (live_app_consumer
        \<lparr>sent := [Send_text (Model_dump_json chunk_h)],
         logged := [''Failed to run app: boom''],
         runs := [\<lparr>client_request_id = JString ''r1'', request_session_id = ''session-1'',
                   input = JObject []\<rparr>]\<rparr>, Returned)
   \<and> app_respond_to_event (scenario_world [])
     (JObject [(''event'', JString ''create_asset''), (''id'', JString ''a1'')])
     signed_in_app_consumer
   = (signed_in_app_consumer
        \<lparr>sent := [Send_text (Json_dumps (JObject [(''errors'', JArray [JString ''storage is down'']),
                                                   (''reply_to'', JString ''a1''),
                                                   (''request_id'', JString ''a1''),
                                                   (''asset_request_id'', JString ''a1'')]))],
         logged := [''storage is down'']\<rparr>, Returned)"
  using run_exception_silent_create_asset_exception_reported
    [where json_data = "JObject [(''event'', JString ''run''), (''id'', JString ''r1'')]"
       and rid = "JString ''r1''" and inp = "JObject []" and s = live_app_consumer and h = 1
       and pre = "[Engine_yields chunk_h]" and e = "''boom''" and post = "[]"
       and w = "scenario_world []"]
    run_exception_silent_create_asset_exception_reported
    [where json_data = "JObject [(''event'', JString ''create_asset''), (''id'', JString ''a1'')]"
       and rid = "JString ''a1''" and s = signed_in_app_consumer and e = "''storage is down''"
       and w = "scenario_world []"]
  by (simp add: scenario_world_def live_app_consumer_def signed_in_app_consumer_def chunk_h_def
        app_respond_to_event_def app_run_event_def create_asset_try_def asset_username_def
        send_text_def logger_exception_def)


section \<open>The asset stream protocol\<close>

lemma split_bytes_head:
  "\<exists>rest. split_bytes sep bs = takeWhile (\<lambda>c. c \<noteq> sep) bs # rest"
  by (induction bs) auto

lemma send_chunks_eq: "send_chunks cs s = s\<lparr>sent := sent s @ map Send_bytes cs\<rparr>"
  by (induction cs arbitrary: s) (simp_all add: send_bytes_def)

lemma asset_respond_nonempty:
  "bytes_data \<noteq> [] \<Longrightarrow>
   asset_respond_to_event ops (Some bytes_data) s =
     (case asset s of
        None \<Rightarrow> (close (Some 1008) s, Returned)
      | Some a \<Rightarrow>
          (case asset_try ops (takeWhile (\<lambda>c. c \<noteq> newline) bytes_data) bytes_data a s of
             (s1, None) \<Rightarrow> (s1, Returned)
           | (s1, Some e) \<Rightarrow> (close None (send_bytes [] (logger_exception e s1)), Returned)))"
  using split_bytes_head [of newline bytes_data]
  by (auto simp: asset_respond_to_event_def)

lemma asset_write_payload:
  "payload \<noteq> [] \<Longrightarrow> asset s = Some a \<Longrightarrow> append_chunk ops payload a = Inr a' \<Longrightarrow>
   asset_respond_to_event ops (Some (''write'' @ newline # payload)) s = (s\<lparr>asset := Some a'\<rparr>, Returned)"
  by (simp add: asset_respond_nonempty asset_try_def asset_read_part_def
        asset_write_part_def newline_def)

lemma asset_write_finalize:
  "asset s = Some a \<Longrightarrow> finalize ops a = Inr a' \<Longrightarrow>
   asset_respond_to_event ops (Some (''write'' @ [newline])) s
     = (s\<lparr>sent := sent s @ [Close None], asset := Some a'\<rparr>, Returned)"
  by (simp add: asset_respond_nonempty asset_try_def asset_read_part_def
        asset_write_part_def close_def newline_def)


text \<open>The handler of each frame running before the next frame arrives.\<close>

lemma asset_session_in_order_Cons:
  "asset_session ops (in_order (f # fs)) (s, []) =
     asset_session ops (in_order fs) (fst (asset_respond_to_event ops f s), [])"
  by (simp add: in_order_def)

text \<open>
  C4, as stated, fails: \<^verbatim>\<open>receive\<close> starts the handler of each frame without awaiting
  it, so nothing orders the handlers of the three frames.  When the handler of
  \<^verbatim>\<open>b"write\nBB"\<close> runs before the handler of \<^verbatim>\<open>b"write\nAAAA"\<close>, the durable content
  of the asset is \<^verbatim>\<open>BBAAAA\<close>.
\<close>

theorem asset_writes_out_of_order:
  "asset_session AssetStream
     [Frame_arrives (Some (''write'' @ newline # ''AAAA'')),
      Frame_arrives (Some (''write'' @ newline # ''BB'')),
      Frame_arrives (Some (''write'' @ [newline])),
      Handler_runs 1, Handler_runs 0, Handler_runs 0]
     (fresh_asset_consumer, [])
   = (fresh_asset_consumer
        \<lparr>sent := [Close None],
         asset := Some \<lparr>chunks = [''BB'', ''AAAA''], finalized = True\<rparr>\<rparr>, [])
   \<and> content \<lparr>chunks = [''BB'', ''AAAA''], finalized = True\<rparr> = ''BBAAAA''"
proof -
  have 1: "asset_respond_to_event AssetStream (Some (''write'' @ newline # ''BB''))
             fresh_asset_consumer
           = (fresh_asset_consumer\<lparr>asset := Some \<lparr>chunks = [''BB''], finalized = False\<rparr>\<rparr>,
              Returned)"
    using asset_write_payload [of "''BB''" fresh_asset_consumer
        "\<lparr>chunks = [], finalized = False\<rparr>" AssetStream
        "\<lparr>chunks = [''BB''], finalized = False\<rparr>"]
    by (simp add: AssetStream_def fresh_asset_consumer_def)
  have 2: "asset_respond_to_event AssetStream (Some (''write'' @ newline # ''AAAA''))
             (fresh_asset_consumer\<lparr>asset := Some \<lparr>chunks = [''BB''], finalized = False\<rparr>\<rparr>)
           = (fresh_asset_consumer
                \<lparr>asset := Some \<lparr>chunks = [''BB'', ''AAAA''], finalized = False\<rparr>\<rparr>, Returned)"
    using asset_write_payload [of "''AAAA''"
        "fresh_asset_consumer\<lparr>asset := Some \<lparr>chunks = [''BB''], finalized = False\<rparr>\<rparr>"
        "\<lparr>chunks = [''BB''], finalized = False\<rparr>" AssetStream
        "\<lparr>chunks = [''BB'', ''AAAA''], finalized = False\<rparr>"]
    by (simp add: AssetStream_def)
  have 3: "asset_respond_to_event AssetStream (Some (''write'' @ [newline]))
             (fresh_asset_consumer
                \<lparr>asset := Some \<lparr>chunks = [''BB'', ''AAAA''], finalized = False\<rparr>\<rparr>)
           = (fresh_asset_consumer
                \<lparr>sent := sent fresh_asset_consumer @ [Close None],
                 asset := Some \<lparr>chunks = [''BB'', ''AAAA''], finalized = True\<rparr>\<rparr>, Returned)"
    using asset_write_finalize [of
        "fresh_asset_consumer
           \<lparr>asset := Some \<lparr>chunks = [''BB'', ''AAAA''], finalized = False\<rparr>\<rparr>"
        "\<lparr>chunks = [''BB'', ''AAAA''], finalized = False\<rparr>" AssetStream
        "\<lparr>chunks = [''BB'', ''AAAA''], finalized = True\<rparr>"]
    by (simp add: AssetStream_def)
  have s0: "sent fresh_asset_consumer = []" by (simp add: fresh_asset_consumer_def)
  show ?thesis using 1 2 3 by (simp add: s0 content_def)
qed

text \<open>
  C4, amended.  On an asset connection whose handle resolved, the frame
  \<^verbatim>\<open>b"write\n"\<close> followed by a non-empty payload makes one call of \<^verbatim>\<open>append_chunk\<close>
  with exactly that payload and sends nothing; the frame \<^verbatim>\<open>b"write\n"\<close> alone calls
  \<^verbatim>\<open>finalize\<close> and then closes the connection.  On an empty asset that is open for
  write, the frames \<^verbatim>\<open>b"write\nAAAA"\<close>, \<^verbatim>\<open>b"write\nBB"\<close>, \<^verbatim>\<open>b"write\n"\<close> leave the
  asset finalized with content \<^verbatim>\<open>AAAABB\<close>, the connection still open after the second
  frame and closed by the third, when their handlers run in the order of arrival: each
  before the next frame arrives, or all three after the last frame arrived.
\<close>

theorem asset_write_appends_then_finalizes:
  "(payload \<noteq> [] \<and> asset s = Some a \<and> append_chunk ops payload a = Inr a'
      \<longrightarrow> asset_respond_to_event ops (Some (''write'' @ newline # payload)) s
            = (s\<lparr>asset := Some a'\<rparr>, Returned))
   \<and> (asset s = Some a \<and> finalize ops a = Inr a'
      \<longrightarrow> asset_respond_to_event ops (Some (''write'' @ [newline])) s
            = (s\<lparr>sent := sent s @ [Close None], asset := Some a'\<rparr>, Returned))
   \<and> (asset c = Some \<lparr>chunks = [], finalized = False\<rparr>
      \<longrightarrow> asset_session AssetStream
              (in_order [Some (''write'' @ newline # ''AAAA''), Some (''write'' @ newline # ''BB'')])
              (c, [])
            = (c\<lparr>asset := Some \<lparr>chunks = [''AAAA'', ''BB''], finalized = False\<rparr>\<rparr>, [])
        \<and> asset_session AssetStream
              (in_order [Some (''write'' @ newline # ''AAAA''), Some (''write'' @ newline # ''BB''),
                         Some (''write'' @ [newline])])
              (c, [])
            = (c\<lparr>sent := sent c @ [Close None],
                 asset := Some \<lparr>chunks = [''AAAA'', ''BB''], finalized = True\<rparr>\<rparr>, [])
        \<and> asset_session AssetStream
              [Frame_arrives (Some (''write'' @ newline # ''AAAA'')),
               Frame_arrives (Some (''write'' @ newline # ''BB'')),
               Frame_arrives (Some (''write'' @ [newline])),
               Handler_runs 0, Handler_runs 0, Handler_runs 0]
              (c, [])
            = (c\<lparr>sent := sent c @ [Close None],
                 asset := Some \<lparr>chunks = [''AAAA'', ''BB''], finalized = True\<rparr>\<rparr>, [])
        \<and> content \<lparr>chunks = [''AAAA'', ''BB''], finalized = True\<rparr> = ''AAAABB'')"
proof -
  have scen: "asset_session AssetStream
              (in_order [Some (''write'' @ newline # ''AAAA''), Some (''write'' @ newline # ''BB'')])
              (c, [])
            = (c\<lparr>asset := Some \<lparr>chunks = [''AAAA'', ''BB''], finalized = False\<rparr>\<rparr>, [])
        \<and> asset_session AssetStream
              (in_order [Some (''write'' @ newline # ''AAAA''), Some (''write'' @ newline # ''BB''),
                         Some (''write'' @ [newline])])
              (c, [])
            = (c\<lparr>sent := sent c @ [Close None],
                 asset := Some \<lparr>chunks = [''AAAA'', ''BB''], finalized = True\<rparr>\<rparr>, [])
        \<and> asset_session AssetStream
              [Frame_arrives (Some (''write'' @ newline # ''AAAA'')),
               Frame_arrives (Some (''write'' @ newline # ''BB'')),
               Frame_arrives (Some (''write'' @ [newline])),
               Handler_runs 0, Handler_runs 0, Handler_runs 0]
              (c, [])
            = (c\<lparr>sent := sent c @ [Close None],
                 asset := Some \<lparr>chunks = [''AAAA'', ''BB''], finalized = True\<rparr>\<rparr>, [])"
    if "asset c = Some \<lparr>chunks = [], finalized = False\<rparr>"
  proof -
    have 1: "asset_respond_to_event AssetStream (Some (''write'' @ newline # ''AAAA'')) c
               = (c\<lparr>asset := Some \<lparr>chunks = [''AAAA''], finalized = False\<rparr>\<rparr>, Returned)"
      using that asset_write_payload [of "''AAAA''" c "\<lparr>chunks = [], finalized = False\<rparr>"
          AssetStream "\<lparr>chunks = [''AAAA''], finalized = False\<rparr>"]
      by (simp add: AssetStream_def)
    have 2: "asset_respond_to_event AssetStream (Some (''write'' @ newline # ''BB''))
               (c\<lparr>asset := Some \<lparr>chunks = [''AAAA''], finalized = False\<rparr>\<rparr>)
               = (c\<lparr>asset := Some \<lparr>chunks = [''AAAA'', ''BB''], finalized = False\<rparr>\<rparr>, Returned)"
      using asset_write_payload [of "''BB''"
          "c\<lparr>asset := Some \<lparr>chunks = [''AAAA''], finalized = False\<rparr>\<rparr>"
          "\<lparr>chunks = [''AAAA''], finalized = False\<rparr>"
          AssetStream "\<lparr>chunks = [''AAAA'', ''BB''], finalized = False\<rparr>"]
      by (simp add: AssetStream_def)
    have 3: "asset_respond_to_event AssetStream (Some (''write'' @ [newline]))
               (c\<lparr>asset := Some \<lparr>chunks = [''AAAA'', ''BB''], finalized = False\<rparr>\<rparr>)
               = (c\<lparr>sent := sent c @ [Close None],
                    asset := Some \<lparr>chunks = [''AAAA'', ''BB''], finalized = True\<rparr>\<rparr>, Returned)"
      using asset_write_finalize [of
          "c\<lparr>asset := Some \<lparr>chunks = [''AAAA'', ''BB''], finalized = False\<rparr>\<rparr>"
          "\<lparr>chunks = [''AAAA'', ''BB''], finalized = False\<rparr>"
          AssetStream "\<lparr>chunks = [''AAAA'', ''BB''], finalized = True\<rparr>"]
      by (simp add: AssetStream_def)
    show ?thesis using 1 2 3 by (simp add: in_order_def)
  qed
  have cont: "content \<lparr>chunks = [''AAAA'', ''BB''], finalized = True\<rparr> = ''AAAABB''"
    by (simp add: content_def)
  show ?thesis
    using asset_write_payload [of payload s a ops a'] asset_write_finalize [of s a ops a'] scen cont
    by blast
qed

theorem asset_write_appends_then_finalizes_witness:
  "asset_respond_to_event AssetStream (Some (''write'' @ newline # ''AAAA'')) fresh_asset_consumer
     = (fresh_asset_consumer\<lparr>asset := Some \<lparr>chunks = [''AAAA''], finalized = False\<rparr>\<rparr>, Returned)
   \<and> asset_respond_to_event AssetStream (Some (''write'' @ [newline])) one_chunk_asset_consumer
     = (one_chunk_asset_consumer
          \<lparr>sent := [Close None],
           asset := Some \<lparr>chunks = [''AAAA''], finalized = True\<rparr>\<rparr>, Returned)
   \<and> asset_session AssetStream
        (in_order [Some (''write'' @ newline # ''AAAA''), Some (''write'' @ newline # ''BB''),
                   Some (''write'' @ [newline])])
        (fresh_asset_consumer, [])
     = (fresh_asset_consumer
          \<lparr>sent := [Close None],
           asset := Some \<lparr>chunks = [''AAAA'', ''BB''], finalized = True\<rparr>\<rparr>, [])"
proof -
  have fresh: "asset fresh_asset_consumer = Some \<lparr>chunks = [], finalized = False\<rparr>"
    and one: "asset one_chunk_asset_consumer = Some \<lparr>chunks = [''AAAA''], finalized = False\<rparr>"
    by (simp_all add: fresh_asset_consumer_def one_chunk_asset_consumer_def)
  have app: "append_chunk AssetStream ''AAAA'' \<lparr>chunks = [], finalized = False\<rparr>
               = Inr \<lparr>chunks = [''AAAA''], finalized = False\<rparr>"
    and fin: "finalize AssetStream \<lparr>chunks = [''AAAA''], finalized = False\<rparr>
               = Inr \<lparr>chunks = [''AAAA''], finalized = True\<rparr>"
    and ne: "''AAAA'' \<noteq> []"
    by (simp_all add: AssetStream_def)
  have 1: "asset_respond_to_event AssetStream (Some (''write'' @ newline # ''AAAA''))
             fresh_asset_consumer
           = (fresh_asset_consumer\<lparr>asset := Some \<lparr>chunks = [''AAAA''], finalized = False\<rparr>\<rparr>,
              Returned)"
    and 3: "asset_session AssetStream
              (in_order [Some (''write'' @ newline # ''AAAA''), Some (''write'' @ newline # ''BB''),
                         Some (''write'' @ [newline])])
              (fresh_asset_consumer, [])
            = (fresh_asset_consumer
                \<lparr>sent := sent fresh_asset_consumer @ [Close None],
                 asset := Some \<lparr>chunks = [''AAAA'', ''BB''], finalized = True\<rparr>\<rparr>, [])"
    using asset_write_appends_then_finalizes
      [where payload = "''AAAA''" and s = fresh_asset_consumer
         and a = "\<lparr>chunks = [], finalized = False\<rparr>" and ops = AssetStream
         and a' = "\<lparr>chunks = [''AAAA''], finalized = False\<rparr>" and c = fresh_asset_consumer]
      fresh app ne
    by blast+
  have 2: "asset_respond_to_event AssetStream (Some (''write'' @ [newline]))
             one_chunk_asset_consumer
           = (one_chunk_asset_consumer
                \<lparr>sent := sent one_chunk_asset_consumer @ [Close None],
                 asset := Some \<lparr>chunks = [''AAAA''], finalized = True\<rparr>\<rparr>, Returned)"
    using asset_write_appends_then_finalizes
      [where s = one_chunk_asset_consumer
         and a = "\<lparr>chunks = [''AAAA''], finalized = False\<rparr>" and ops = AssetStream
         and a' = "\<lparr>chunks = [''AAAA''], finalized = True\<rparr>"]
      one fin
    by blast
  have s1: "sent fresh_asset_consumer = []" and s2: "sent one_chunk_asset_consumer = []"
    by (simp_all add: fresh_asset_consumer_def one_chunk_asset_consumer_def)
  show ?thesis using 1 2 3 unfolding s1 s2 append_Nil by blast
qed

text \<open>On an unresolved asset each handler that runs only closes with 1008, so the order
  of the handlers does not matter: after any schedule the consumer has closed once for
  every handler that ran, which are the frames that arrived less those still waiting.\<close>

lemma unresolved_close_once:
  "asset s = None \<Longrightarrow> is_event f \<Longrightarrow>
   asset_respond_to_event ops f s = (s\<lparr>sent := sent s @ [Close (Some 1008)]\<rparr>, Returned)"
  by (cases f) (simp_all add: asset_respond_nonempty close_def)

lemma asset_session_unresolved:
  "asset s = None \<Longrightarrow> list_all is_event started \<Longrightarrow> list_all arrives_event acts \<Longrightarrow>
   \<exists>k. fst (asset_session ops acts (s, started))
          = s\<lparr>sent := sent s @ replicate k (Close (Some 1008))\<rparr>
     \<and> k + length (snd (asset_session ops acts (s, started)))
          = length started + length (filter is_arrival acts)"
proof (induction acts arbitrary: s started)
  case Nil
  show ?case by (rule exI [of _ 0]) simp
next
  case (Cons act acts)
  show ?case
  proof (cases act)
    case (Frame_arrives f)
    with Cons.prems have "list_all is_event (started @ [f])" and "list_all arrives_event acts"
      by simp_all
    from Cons.IH [OF Cons.prems(1) this] Frame_arrives show ?thesis by simp
  next
    case (Handler_runs n)
    show ?thesis
    proof (cases "n < length started")
      case False
      with Cons.IH [OF Cons.prems(1,2)] Cons.prems(3) Handler_runs show ?thesis by simp
    next
      case True
      let ?s = "s\<lparr>sent := sent s @ [Close (Some 1008)]\<rparr>"
      let ?st = "take n started @ drop (Suc n) started"
      have ev: "is_event (started ! n)"
        using True Cons.prems(2) by (simp add: list_all_length)
      have step: "asset_respond_to_event ops (started ! n) s = (?s, Returned)"
        using Cons.prems(1) ev by (rule unresolved_close_once)
      have st: "list_all is_event ?st"
        using Cons.prems(2) by (auto simp: list_all_iff dest: in_set_takeD in_set_dropD)
      have len: "Suc (length ?st) = length started"
        using True by simp
      have "asset ?s = None" using Cons.prems(1) by simp
      from Cons.IH [OF this st] Cons.prems(3) obtain k where
        k: "fst (asset_session ops acts (?s, ?st))
              = ?s\<lparr>sent := sent ?s @ replicate k (Close (Some 1008))\<rparr>"
           "k + length (snd (asset_session ops acts (?s, ?st)))
              = length ?st + length (filter is_arrival acts)"
        by auto
      have run: "asset_session ops (act # acts) (s, started) = asset_session ops acts (?s, ?st)"
        using True Handler_runs step by simp
      have "fst (asset_session ops (act # acts) (s, started))
              = s\<lparr>sent := sent s @ replicate (Suc k) (Close (Some 1008))\<rparr>"
        using k(1) run by (simp add: replicate_app_Cons_same)
      moreover have "Suc k + length (snd (asset_session ops (act # acts) (s, started)))
              = length started + length (filter is_arrival (act # acts))"
        using k(2) run len Handler_runs by simp
      ultimately show ?thesis by blast
    qed
  qed
qed

lemma asset_session_in_order_unresolved:
  "asset s = None \<Longrightarrow> list_all (\<lambda>f. f \<noteq> None \<and> f \<noteq> Some []) fs \<Longrightarrow>
   asset_session ops (in_order fs) (s, [])
     = (s\<lparr>sent := sent s @ replicate (length fs) (Close (Some 1008))\<rparr>, [])"
proof (induction fs arbitrary: s)
  case Nil
  then show ?case by (simp add: in_order_def)
next
  case (Cons f fs)
  from Cons.prems have ev: "is_event f" by (cases f) auto
  have step: "asset_respond_to_event ops f s = (s\<lparr>sent := sent s @ [Close (Some 1008)]\<rparr>, Returned)"
    using Cons.prems(1) ev by (rule unresolved_close_once)
  have "asset_session ops (in_order fs) (s\<lparr>sent := sent s @ [Close (Some 1008)]\<rparr>, [])
          = ((s\<lparr>sent := sent s @ [Close (Some 1008)]\<rparr>)
              \<lparr>sent := sent (s\<lparr>sent := sent s @ [Close (Some 1008)]\<rparr>)
                         @ replicate (length fs) (Close (Some 1008))\<rparr>, [])"
    using Cons.prems by (intro Cons.IH) simp_all
  then show ?case
    using step by (simp add: asset_session_in_order_Cons replicate_app_Cons_same)
qed

text \<open>
  C8.  On an asset connection whose handle did not resolve, every event (a non-empty
  binary frame, whatever its tag) closes the connection with code 1008 and does nothing
  else: the result is the same for every \<^verbatim>\<open>AssetStream\<close>, none of whose methods is
  called, and this holds for each event of any sequence of events, in whatever order
  their handlers run.
\<close>

theorem unresolved_asset_closes_1008:
  "asset s = None \<longrightarrow>
     (bytes_data \<noteq> [] \<longrightarrow>
        asset_respond_to_event ops (Some bytes_data) s
          = (s\<lparr>sent := sent s @ [Close (Some 1008)]\<rparr>, Returned))
   \<and> (list_all (\<lambda>f. f \<noteq> None \<and> f \<noteq> Some []) fs \<longrightarrow>
        asset_session ops (in_order fs) (s, [])
          = (s\<lparr>sent := sent s @ replicate (length fs) (Close (Some 1008))\<rparr>, []))
   \<and> (list_all arrives_event acts \<longrightarrow>
        (\<exists>k. fst (asset_session ops acts (s, []))
                = s\<lparr>sent := sent s @ replicate k (Close (Some 1008))\<rparr>
            \<and> k + length (snd (asset_session ops acts (s, [])))
                = length (filter is_arrival acts)))"
  using asset_session_in_order_unresolved [of s fs ops]
    asset_session_unresolved [of s "[]" acts ops]
  by (simp add: asset_respond_nonempty close_def)

theorem unresolved_asset_closes_1008_witness:
  "asset_respond_to_event AssetStream (Some ''read'') unresolved_asset_consumer
     = (unresolved_asset_consumer\<lparr>sent := [Close (Some 1008)]\<rparr>, Returned)
   \<and> asset_session AssetStream
        (in_order [Some (''write'' @ newline # ''AAAA''), Some (''write'' @ [newline])])
        (unresolved_asset_consumer, [])
     = (unresolved_asset_consumer\<lparr>sent := [Close (Some 1008), Close (Some 1008)]\<rparr>, [])"
proof -
  have un: "asset unresolved_asset_consumer = None"
    and s0: "sent unresolved_asset_consumer = []"
    by (simp_all add: unresolved_asset_consumer_def)
  have ne: "''read'' \<noteq> []"
    and all: "list_all (\<lambda>f. f \<noteq> None \<and> f \<noteq> Some [])
                [Some (''write'' @ newline # ''AAAA''), Some (''write'' @ [newline])]"
    and len: "replicate (length [Some (''write'' @ newline # ''AAAA''), Some (''write'' @ [newline])])
                (Close (Some 1008)) = [Close (Some 1008), Close (Some 1008)]"
    by simp_all
  show ?thesis
    using unresolved_asset_closes_1008
      [where s = unresolved_asset_consumer and bytes_data = "''read''" and ops = AssetStream
         and fs = "[Some (''write'' @ newline # ''AAAA''), Some (''write'' @ [newline])]"]
      un ne all
    unfolding s0 len append_Nil by blast
qed

text \<open>
  C9.  The asset handler always returns: no exception leaves it.  On a resolved asset,
  an exception \<open>e\<close> raised by the iteration of \<^verbatim>\<open>read_async\<close>, by \<^verbatim>\<open>finalize\<close> or by
  \<^verbatim>\<open>append_chunk\<close> is logged, an empty binary frame is sent after the chunks that
  were already sent, and the connection is closed.
\<close>

theorem asset_exception_sync_frame_then_close:
  "snd (asset_respond_to_event ops frame s) = Returned
   \<and> (asset s = Some a \<longrightarrow>
        (takeWhile (\<lambda>c. c \<noteq> newline) bytes_data = ''read'' \<and> read_async ops a = (cs, Some e)
           \<longrightarrow> asset_respond_to_event ops (Some bytes_data) s
                 = (s\<lparr>sent := sent s @ map Send_bytes cs @ [Send_bytes [], Close None],
                      logged := logged s @ [e]\<rparr>, Returned))
      \<and> (finalize ops a = Inl e
           \<longrightarrow> asset_respond_to_event ops (Some (''write'' @ [newline])) s
                 = (s\<lparr>sent := sent s @ [Send_bytes [], Close None],
                      logged := logged s @ [e]\<rparr>, Returned))
      \<and> (takeWhile (\<lambda>c. c \<noteq> newline) bytes_data = ''write'' \<and> bytes_data \<noteq> ''write'' @ [newline]
           \<and> append_chunk ops (drop 6 bytes_data) a = Inl e
           \<longrightarrow> asset_respond_to_event ops (Some bytes_data) s
                 = (s\<lparr>sent := sent s @ [Send_bytes [], Close None],
                      logged := logged s @ [e]\<rparr>, Returned)))"
proof -
  have never: "snd (asset_respond_to_event ops frame s) = Returned"
  proof (cases frame)
    case None
    then show ?thesis by (simp add: asset_respond_to_event_def)
  next
    case (Some b)
    show ?thesis
    proof (cases "b = []")
      case True
      with Some show ?thesis by (simp add: asset_respond_to_event_def)
    next
      case False
      with Some show ?thesis
        by (simp add: asset_respond_nonempty split: option.splits prod.splits)
    qed
  qed
  have rd: "asset_respond_to_event ops (Some bytes_data) s
                 = (s\<lparr>sent := sent s @ map Send_bytes cs @ [Send_bytes [], Close None],
                      logged := logged s @ [e]\<rparr>, Returned)"
    if "asset s = Some a" "takeWhile (\<lambda>c. c \<noteq> newline) bytes_data = ''read''"
       "read_async ops a = (cs, Some e)"
  proof -
    have "bytes_data \<noteq> []" using that(2) by auto
    then show ?thesis using that
      by (simp add: asset_respond_nonempty asset_try_def asset_read_part_def send_chunks_eq
            close_def send_bytes_def logger_exception_def)
  qed
  have fin: "asset_respond_to_event ops (Some (''write'' @ [newline])) s
                 = (s\<lparr>sent := sent s @ [Send_bytes [], Close None],
                      logged := logged s @ [e]\<rparr>, Returned)"
    if "asset s = Some a" "finalize ops a = Inl e"
    using that
    by (simp add: asset_respond_nonempty asset_try_def asset_read_part_def asset_write_part_def
            close_def send_bytes_def logger_exception_def newline_def)
  have app: "asset_respond_to_event ops (Some bytes_data) s
                 = (s\<lparr>sent := sent s @ [Send_bytes [], Close None],
                      logged := logged s @ [e]\<rparr>, Returned)"
    if "asset s = Some a" "takeWhile (\<lambda>c. c \<noteq> newline) bytes_data = ''write''"
       "bytes_data \<noteq> ''write'' @ [newline]" "append_chunk ops (drop 6 bytes_data) a = Inl e"
  proof -
    have "bytes_data \<noteq> []" using that(2) by auto
    then show ?thesis using that
      by (simp add: asset_respond_nonempty asset_try_def asset_read_part_def asset_write_part_def
            close_def send_bytes_def logger_exception_def)
  qed
  show ?thesis using never rd fin app by blast
qed

theorem asset_exception_sync_frame_then_close_witness:
  "asset_respond_to_event broken_stream (Some ''read'') one_chunk_asset_consumer
     = (one_chunk_asset_consumer
          \<lparr>sent := [Send_bytes ''AAAA'', Send_bytes [], Close None],
           logged := [''read failed'']\<rparr>, Returned)
   \<and> asset_respond_to_event broken_stream (Some (''write'' @ [newline])) one_chunk_asset_consumer
     = (one_chunk_asset_consumer
          \<lparr>sent := [Send_bytes [], Close None], logged := [''finalize failed'']\<rparr>, Returned)
   \<and> asset_respond_to_event broken_stream (Some (''write'' @ newline # ''BB''))
        one_chunk_asset_consumer
     = (one_chunk_asset_consumer
          \<lparr>sent := [Send_bytes [], Close None], logged := [''disk full'']\<rparr>, Returned)"
proof -
  have one: "asset one_chunk_asset_consumer = Some \<lparr>chunks = [''AAAA''], finalized = False\<rparr>"
    and s0: "sent one_chunk_asset_consumer = []" and l0: "logged one_chunk_asset_consumer = []"
    by (simp_all add: one_chunk_asset_consumer_def)
  have rd: "takeWhile (\<lambda>c. c \<noteq> newline) ''read'' = ''read''
              \<and> read_async broken_stream \<lparr>chunks = [''AAAA''], finalized = False\<rparr>
                  = ([''AAAA''], Some ''read failed'')"
    and fin: "finalize broken_stream \<lparr>chunks = [''AAAA''], finalized = False\<rparr>
                = Inl ''finalize failed''"
    and app: "takeWhile (\<lambda>c. c \<noteq> newline) (''write'' @ newline # ''BB'') = ''write''
              \<and> ''write'' @ newline # ''BB'' \<noteq> ''write'' @ [newline]
              \<and> append_chunk broken_stream (drop 6 (''write'' @ newline # ''BB''))
                   \<lparr>chunks = [''AAAA''], finalized = False\<rparr> = Inl ''disk full''"
    and m: "map Send_bytes [''AAAA''] @ [Send_bytes [], Close None]
              = [Send_bytes ''AAAA'', Send_bytes [], Close None]"
    by (simp_all add: broken_stream_def newline_def)
  have 1: "asset_respond_to_event broken_stream (Some ''read'') one_chunk_asset_consumer
     = (one_chunk_asset_consumer
          \<lparr>sent := [Send_bytes ''AAAA'', Send_bytes [], Close None],
           logged := [''read failed'']\<rparr>, Returned)"
    using asset_exception_sync_frame_then_close
      [where s = one_chunk_asset_consumer and a = "\<lparr>chunks = [''AAAA''], finalized = False\<rparr>"
         and ops = broken_stream and bytes_data = "''read''" and cs = "[''AAAA'']"
         and e = "''read failed''"] one rd
    unfolding s0 l0 m append_Nil by blast
  have 2: "asset_respond_to_event broken_stream (Some (''write'' @ [newline])) one_chunk_asset_consumer
     = (one_chunk_asset_consumer
          \<lparr>sent := [Send_bytes [], Close None], logged := [''finalize failed'']\<rparr>, Returned)"
    using asset_exception_sync_frame_then_close
      [where s = one_chunk_asset_consumer and a = "\<lparr>chunks = [''AAAA''], finalized = False\<rparr>"
         and ops = broken_stream and e = "''finalize failed''"] one fin
    unfolding s0 l0 append_Nil by blast
  have 3: "asset_respond_to_event broken_stream (Some (''write'' @ newline # ''BB''))
        one_chunk_asset_consumer
     = (one_chunk_asset_consumer
          \<lparr>sent := [Send_bytes [], Close None], logged := [''disk full'']\<rparr>, Returned)"
    using asset_exception_sync_frame_then_close
      [where s = one_chunk_asset_consumer and a = "\<lparr>chunks = [''AAAA''], finalized = False\<rparr>"
         and ops = broken_stream and bytes_data = "''write'' @ newline # ''BB''"
         and e = "''disk full''"] one app
    unfolding s0 l0 append_Nil by blast
  show ?thesis using 1 2 3 by blast
qed


section \<open>The playground's run handle\<close>

lemma playground_dispatch_runner [simp]:
  "app_runner (playground_dispatch rid r s) = app_runner s"
  "stops (playground_dispatch rid r s) = stops s"
  by (cases r; simp add: send_text_def)+










section \<open>Telephony media\<close>

text \<open>
  C7.  For a \<^verbatim>\<open>media\<close> event whose \<^verbatim>\<open>media\<close> entry is an object with payload
  \<open>payload\<close>: when the payload is non-empty and an input audio stream is attached, the
  payload goes through \<^verbatim>\<open>base64.b64decode\<close>, \<^verbatim>\<open>audioop.ulaw2lin\<close> with 2 bytes a
  sample and \<^verbatim>\<open>audioop.ratecv\<close> with 2 bytes a sample, one channel, from 8000 Hz to
  24000 Hz, and the result is appended to the input audio stream as one chunk; when the
  payload is empty or no stream is attached the consumer is left as it was.  In every
  case the handler returns, sends no frame, and leaves the liveness flag and the run
  handle untouched.
\<close>

theorem media_event_transcoded_or_dropped:
  "json_get json_data ''event'' JNull = Inr (JString ''media'')
     \<and> json_get json_data ''media'' (JObject []) = Inr media
     \<and> json_get media ''payload'' (JString []) = Inr payload \<longrightarrow>
     (truthy payload \<and> input_audio_stream s = Some a
        \<and> b64decode w payload = Inr ulaw_data
        \<and> ulaw2lin w ulaw_data 2 = Inr pcm_data
        \<and> ratecv w pcm_data 2 1 8000 24000 = Inr pcm_upsampled
        \<and> append_chunk (tw_stream w) pcm_upsampled a = Inr a'
      \<longrightarrow> twilio_respond_to_event w json_data s = (s\<lparr>input_audio_stream := Some a'\<rparr>, Returned))
   \<and> (\<not> truthy payload \<or> input_audio_stream s = None
      \<longrightarrow> twilio_respond_to_event w json_data s = (s, Returned))
   \<and> snd (twilio_respond_to_event w json_data s) = Returned
   \<and> sent (fst (twilio_respond_to_event w json_data s)) = sent s
   \<and> connected (fst (twilio_respond_to_event w json_data s)) = connected s
   \<and> app_runner (fst (twilio_respond_to_event w json_data s)) = app_runner s"
proof
  assume h: "json_get json_data ''event'' JNull = Inr (JString ''media'')
     \<and> json_get json_data ''media'' (JObject []) = Inr media
     \<and> json_get media ''payload'' (JString []) = Inr payload"
  then have ev: "twilio_respond_to_event w json_data s = twilio_media w json_data s"
    by (simp add: twilio_respond_to_event_def)
  have conv: "twilio_media w json_data s = (s\<lparr>input_audio_stream := Some a'\<rparr>, Returned)"
    if "truthy payload" "input_audio_stream s = Some a" "b64decode w payload = Inr ulaw_data"
       "ulaw2lin w ulaw_data 2 = Inr pcm_data" "ratecv w pcm_data 2 1 8000 24000 = Inr pcm_upsampled"
       "append_chunk (tw_stream w) pcm_upsampled a = Inr a'"
    using h that by (simp add: twilio_media_def twilio_transcode_def)
  have drop: "twilio_media w json_data s = (s, Returned)"
    if "\<not> truthy payload \<or> input_audio_stream s = None"
    using h that by (auto simp: twilio_media_def)
  have quiet: "snd (twilio_media w json_data s) = Returned
     \<and> sent (fst (twilio_media w json_data s)) = sent s
     \<and> connected (fst (twilio_media w json_data s)) = connected s
     \<and> app_runner (fst (twilio_media w json_data s)) = app_runner s"
    using h by (auto simp: twilio_media_def logger_exception_def split: sum.splits option.splits)
  show "(truthy payload \<and> input_audio_stream s = Some a
        \<and> b64decode w payload = Inr ulaw_data
        \<and> ulaw2lin w ulaw_data 2 = Inr pcm_data
        \<and> ratecv w pcm_data 2 1 8000 24000 = Inr pcm_upsampled
        \<and> append_chunk (tw_stream w) pcm_upsampled a = Inr a'
      \<longrightarrow> twilio_respond_to_event w json_data s = (s\<lparr>input_audio_stream := Some a'\<rparr>, Returned))
   \<and> (\<not> truthy payload \<or> input_audio_stream s = None
      \<longrightarrow> twilio_respond_to_event w json_data s = (s, Returned))
   \<and> snd (twilio_respond_to_event w json_data s) = Returned
   \<and> sent (fst (twilio_respond_to_event w json_data s)) = sent s
   \<and> connected (fst (twilio_respond_to_event w json_data s)) = connected s
   \<and> app_runner (fst (twilio_respond_to_event w json_data s)) = app_runner s"
    unfolding ev using conv drop quiet by blast
qed

theorem media_event_transcoded_or_dropped_witness:
  "twilio_respond_to_event silence_world silence_frame attached_twilio_consumer
     = (attached_twilio_consumer
          \<lparr>input_audio_stream := Some \<lparr>chunks = [[CHR 0x00, CHR 0x00]], finalized = False\<rparr>\<rparr>,
        Returned)
   \<and> twilio_respond_to_event silence_world silence_frame live_twilio_consumer
     = (live_twilio_consumer, Returned)"
proof -
  have f: "json_get silence_frame ''event'' JNull = Inr (JString ''media'')
     \<and> json_get silence_frame ''media'' (JObject []) = Inr (JObject [(''payload'', JString ''/w=='')])
     \<and> json_get (JObject [(''payload'', JString ''/w=='')]) ''payload'' (JString [])
         = Inr (JString ''/w=='')"
    by (simp add: silence_frame_def)
  have c: "truthy (JString ''/w=='')
        \<and> input_audio_stream attached_twilio_consumer = Some \<lparr>chunks = [], finalized = False\<rparr>
        \<and> b64decode silence_world (JString ''/w=='') = Inr [CHR 0xFF]
        \<and> ulaw2lin silence_world [CHR 0xFF] 2 = Inr [CHR 0x00, CHR 0x00]
        \<and> ratecv silence_world [CHR 0x00, CHR 0x00] 2 1 8000 24000 = Inr [CHR 0x00, CHR 0x00]
        \<and> append_chunk (tw_stream silence_world) [CHR 0x00, CHR 0x00]
             \<lparr>chunks = [], finalized = False\<rparr>
            = Inr \<lparr>chunks = [[CHR 0x00, CHR 0x00]], finalized = False\<rparr>"
    by (simp add: silence_world_def attached_twilio_consumer_def live_twilio_consumer_def
          AssetStream_def)
  have n: "input_audio_stream live_twilio_consumer = None"
    by (simp add: live_twilio_consumer_def)
  have 1: "twilio_respond_to_event silence_world silence_frame attached_twilio_consumer
     = (attached_twilio_consumer
          \<lparr>input_audio_stream := Some \<lparr>chunks = [[CHR 0x00, CHR 0x00]], finalized = False\<rparr>\<rparr>,
        Returned)"
    using media_event_transcoded_or_dropped
      [where json_data = silence_frame and media = "JObject [(''payload'', JString ''/w=='')]"
         and payload = "JString ''/w==''" and s = attached_twilio_consumer and w = silence_world
         and a = "\<lparr>chunks = [], finalized = False\<rparr>" and ulaw_data = "[CHR 0xFF]"
         and pcm_data = "[CHR 0x00, CHR 0x00]" and pcm_upsampled = "[CHR 0x00, CHR 0x00]"
         and a' = "\<lparr>chunks = [[CHR 0x00, CHR 0x00]], finalized = False\<rparr>"] f c
    by blast
  have 2: "twilio_respond_to_event silence_world silence_frame live_twilio_consumer
     = (live_twilio_consumer, Returned)"
    using media_event_transcoded_or_dropped
      [where json_data = silence_frame and media = "JObject [(''payload'', JString ''/w=='')]"
         and payload = "JString ''/w==''" and s = live_twilio_consumer and w = silence_world] f n
    by blast
  show ?thesis using 1 2 by blast
qed

section \<open>The terminate input of an activation session\<close>

text \<open>Had the coroutine of \<^verbatim>\<open>disconnect\<close> been awaited, the activation task would
  send nothing more.\<close>

lemma awaited_disconnect_silences_activation:
  "sent (activation_turn item (connection_disconnect code s)) = sent s"
  by (simp add: activation_turn_def connection_disconnect_def Let_def)

text \<open>
  C6, evaluated.  \<^verbatim>\<open>receive\<close> delivers the \<open>terminate\<close> input to the actor and logs
  an exception of the delivery, but the \<^verbatim>\<open>finally\<close> clause only creates the coroutine
  of \<^verbatim>\<open>self.disconnect(1000)\<close> and never awaits it.  On a session that was activated
  and then terminated, the actor is not stopped, the activation task is still pending,
  nothing closes the connection, and the next output of the actor is sent to the client
  as an \<open>output\<close> frame.
\<close>

theorem terminate_does_not_disconnect:
  "connection_session (\<lambda>i. None)
     [Client_sends (Some activate_frame), Client_sends (Some terminate_frame),
      Actor_emits (Actor_yields (ConnectionActivationOutput (JString ''open the consent page'')))]
     idle_connection_consumer
   = idle_connection_consumer
       \<lparr>sent := [Send_text (Json_dumps (JObject [(''event'', JString ''output''),
                                                 (''output'', JString ''open the consent page'')]))],
        actor_inputs := [JString ''terminate''],
        activation_task := Some Task_pending,
        never_awaited := [Disconnect_coroutine 1000]\<rparr>
   \<and> connection_receive (\<lambda>i. Some ''the actor is gone'') (Some terminate_frame)
       idle_connection_consumer
     = (idle_connection_consumer
          \<lparr>logged := [''the actor is gone''],
           never_awaited := [Disconnect_coroutine 1000]\<rparr>, Returned)"
  by (simp add: connection_receive_def activation_turn_def activate_frame_def
        terminate_frame_def idle_connection_consumer_def send_text_def logger_exception_def
        Let_def)

end
